theory Spec2Isabelle
  imports Main "HOL-Library.Signed_Division"
begin

section \<open>Strings of the Go runtime\<close>

text \<open>
  A Go string is a sequence of bytes, here a \<open>string\<close> (a list of 8-bit characters).
  The three library functions the supervisor calls on strings are modelled from their
  documented behaviour: \<open>strings.TrimSpace\<close>, \<open>strconv.Atoi\<close> and \<open>strconv.Itoa\<close>.
\<close>

text \<open>
  The UTF-8 encodings of the code points with the Unicode White_Space property, which
  is what \<open>unicode.IsSpace\<close> accepts: U+0009..U+000D, U+0020, U+0085, U+00A0, U+1680,
  U+2000..U+200A, U+2028, U+2029, U+202F, U+205F, U+3000.
\<close>

definition space_runes :: "string list" where
  "space_runes =
    [[CHR 0x09], [CHR 0x0A], [CHR 0x0B], [CHR 0x0C], [CHR 0x0D], [CHR 0x20],
     [CHR 0xC2, CHR 0x85], [CHR 0xC2, CHR 0xA0],
     [CHR 0xE1, CHR 0x9A, CHR 0x80],
     [CHR 0xE2, CHR 0x80, CHR 0x80], [CHR 0xE2, CHR 0x80, CHR 0x81],
     [CHR 0xE2, CHR 0x80, CHR 0x82], [CHR 0xE2, CHR 0x80, CHR 0x83],
     [CHR 0xE2, CHR 0x80, CHR 0x84], [CHR 0xE2, CHR 0x80, CHR 0x85],
     [CHR 0xE2, CHR 0x80, CHR 0x86], [CHR 0xE2, CHR 0x80, CHR 0x87],
     [CHR 0xE2, CHR 0x80, CHR 0x88], [CHR 0xE2, CHR 0x80, CHR 0x89],
     [CHR 0xE2, CHR 0x80, CHR 0x8A],
     [CHR 0xE2, CHR 0x80, CHR 0xA8], [CHR 0xE2, CHR 0x80, CHR 0xA9],
     [CHR 0xE2, CHR 0x80, CHR 0xAF], [CHR 0xE2, CHR 0x81, CHR 0x9F],
     [CHR 0xE3, CHR 0x80, CHR 0x80]]"

text \<open>
  \<open>strip_runes ps s\<close> removes from the front of \<open>s\<close> every leading occurrence of one
  of the byte sequences \<open>ps\<close>: the loop of \<open>strings.TrimLeftFunc\<close>, which decodes one
  rune at a time and stops at the first rune that is not white space.
\<close>

function strip_runes :: "string list \<Rightarrow> string \<Rightarrow> string" where
  "strip_runes ps s =
     (case find (\<lambda>p. p \<noteq> [] \<and> take (length p) s = p) ps of
        None \<Rightarrow> s
      | Some p \<Rightarrow> strip_runes ps (drop (length p) s))"
  by pat_completeness auto
termination
proof (relation "measure (\<lambda>(ps, s). length s)")
  show "wf (measure (\<lambda>(ps, s). length s))" by simp
next
  fix ps :: "string list" and s p :: string
  assume "find (\<lambda>p. p \<noteq> [] \<and> take (length p) s = p) ps = Some p"
  then have "p \<noteq> []" and "take (length p) s = p"
    by (auto simp: find_Some_iff)
  then have "s \<noteq> []" by auto
  with \<open>p \<noteq> []\<close> show "((ps, drop (length p) s), (ps, s)) \<in> measure (\<lambda>(ps, s). length s)"
    by simp
qed

declare strip_runes.simps [simp del]

text \<open>
  \<open>strings.TrimSpace\<close>: leading white space is removed first, then trailing white
  space (the same loop run from the end of the string, on the reversed encodings).
\<close>

definition TrimSpace :: "string \<Rightarrow> string" where
  "TrimSpace s = rev (strip_runes (map rev space_runes) (rev (strip_runes space_runes s)))"

subsection \<open>Errors\<close>

text \<open>
  Go's \<open>error\<close> values met by the supervisor: an error of the operating system or of a
  child command (opaque, known by its text), a \<open>strconv.NumError\<close>, and an error wrapped
  by \<open>fmt.Errorf(prefix + "%w", err)\<close>.
\<close>

datatype error =
    OSError string
  | NumError string string
  | Errorf string error

text \<open>The method \<open>Error()\<close>: the text of an error.\<close>

fun error_string :: "error \<Rightarrow> string" where
  "error_string (OSError t) = t"
| "error_string (NumError s why) =
     ''strconv.Atoi: parsing '' @ [CHR 0x22] @ s @ [CHR 0x22] @ '': '' @ why"
| "error_string (Errorf p e) = p @ error_string e"

subsection \<open>Decimal integers\<close>

definition is_digit :: "char \<Rightarrow> bool" where
  "is_digit c = (48 \<le> (of_char c :: int) \<and> (of_char c :: int) \<le> 57)"

definition digits_value :: "string \<Rightarrow> int" where
  "digits_value ds = foldl (\<lambda>n c. 10 * n + ((of_char c :: int) - 48)) 0 ds"

text \<open>
  \<open>strconv.Atoi\<close> for a 64-bit \<open>int\<close>: an optional sign, then at least one decimal
  digit and nothing else; a value outside the 64-bit range is an error too.
\<close>

definition Atoi :: "string \<Rightarrow> error + int" where
  "Atoi s =
     (let neg = (s \<noteq> [] \<and> hd s = CHR ''-'');
          ds = (if s \<noteq> [] \<and> (hd s = CHR ''-'' \<or> hd s = CHR ''+'') then tl s else s)
      in if ds = [] \<or> \<not> list_all is_digit ds then Inl (NumError s ''invalid syntax'')
         else if neg then
           (if digits_value ds > 2 ^ 63 then Inl (NumError s ''value out of range'')
            else Inr (- digits_value ds))
         else
           (if digits_value ds \<ge> 2 ^ 63 then Inl (NumError s ''value out of range'')
            else Inr (digits_value ds)))"

text \<open>\<open>strconv.Itoa\<close>: the decimal digits of a number that is not negative, and a sign.\<close>

function digits :: "int \<Rightarrow> string" where
  "digits n =
     (if n < 10 then [char_of (48 + n)]
      else digits (n div 10) @ [char_of (48 + n mod 10)])"
  by pat_completeness auto
termination
  by (relation "measure nat") auto

declare digits.simps [simp del]

definition Itoa :: "int \<Rightarrow> string" where
  "Itoa i = (if i < 0 then CHR ''-'' # digits (- i) else digits i)"

section \<open>The log sink\<close>

datatype LogLevel = LogInfo | LogWarning | LogError | LogDebug | LogSystem

text \<open>A time stamp is a number of milliseconds; \<open>0\<close> is Go's zero \<open>time.Time\<close>.\<close>

type_synonym time = nat

record LogEntry =
  Timestamp :: time
  Level :: LogLevel
  Source :: string
  Message :: string

record Logger =
  entries :: "LogEntry list"
  logFile :: string

text \<open>The logger that \<open>init\<close> creates: no entries, mirrored to \<open>.local-first/cli.log\<close>.\<close>

definition globalLogger :: Logger where
  "globalLogger = \<lparr>entries = [], logFile = ''.local-first/cli.log''\<rparr>"

text \<open>
  \<open>Logger.Log\<close>. The clock reading \<open>time.Now()\<close> is the argument \<open>now\<close>. The entry is
  appended and, when the buffer then holds more than 500 entries, the oldest one is
  dropped. The mirror to the log file runs in a goroutine of its own and does not touch
  the buffer; it is left out of the model.
\<close>

definition Log :: "time \<Rightarrow> LogLevel \<Rightarrow> string \<Rightarrow> string \<Rightarrow> Logger \<Rightarrow> Logger" where
  "Log now level source message l =
     (let entry = \<lparr>Timestamp = now, Level = level, Source = source,
                   Message = TrimSpace message\<rparr>;
          es = entries l @ [entry]
      in l\<lparr>entries := (if length es > 500 then tl es else es)\<rparr>)"

text \<open>\<open>Logger.GetRecentLogs\<close>; \<open>limit\<close> is a Go \<open>int\<close>.\<close>

definition GetRecentLogs :: "Logger \<Rightarrow> int \<Rightarrow> LogEntry list" where
  "GetRecentLogs l limit =
     (let limit' = (if limit \<le> 0 \<or> limit > int (length (entries l))
                    then int (length (entries l)) else limit)
      in if limit' = 0 then []
         else drop (nat (int (length (entries l)) - limit')) (entries l))"

text \<open>\<open>Logger.GetLogsBySource\<close>.\<close>

definition GetLogsBySource :: "Logger \<Rightarrow> string \<Rightarrow> int \<Rightarrow> LogEntry list" where
  "GetLogsBySource l source limit =
     (let filtered = filter (\<lambda>entry. Source entry = source) (entries l)
      in if limit > 0 \<and> int (length filtered) > limit
         then drop (nat (int (length filtered) - limit)) filtered
         else filtered)"

section \<open>The dashboard's state\<close>

datatype ServerStatus = ServerStopped | ServerStarting | ServerRunning | ServerStopping

record ServerInfo =
  Status :: ServerStatus
  Port :: int
  PID :: int
  Uptime :: int

record RequestLog =
  req_Timestamp :: time
  Method :: string
  Path :: string
  req_Status :: int
  Duration :: int

text \<open>
  A key binding is the list of its keys; \<open>key.Matches msg b\<close> holds when the key of the
  message is one of them (no binding of \<open>DefaultKeyMap\<close> is disabled).
\<close>

record KeyMap =
  Start :: "string list"
  Stop :: "string list"
  Restart :: "string list"
  Refresh :: "string list"
  NextTab :: "string list"
  PrevTab :: "string list"
  Clear :: "string list"
  Quit :: "string list"

definition DefaultKeyMap :: KeyMap where
  "DefaultKeyMap =
     \<lparr>Start = [''s''], Stop = [''x''], Restart = [''r''], Refresh = [''f5'', ''ctrl+r''],
      NextTab = [''tab'', ''right''], PrevTab = [''shift+tab'', ''left''],
      Clear = [''c'', ''esc''], Quit = [''q'', ''ctrl+c'']\<rparr>"

definition Matches :: "string \<Rightarrow> string list \<Rightarrow> bool" where
  "Matches k b = (k \<in> set b)"

record DashboardModel =
  server :: ServerInfo
  requests :: "RequestLog list"
  logs :: "LogEntry list"
  selectedTab :: int
  tabs :: "string list"
  width :: int
  height :: int
  startTime :: time
  keyMap :: KeyMap
  lastError :: string
  showError :: bool

record ServerStatusMsg =
  msg_Status :: ServerStatus
  msg_PID :: int
  msg_Error :: "error option"

section \<open>The operating system and the supervisor's state\<close>

datatype signal = SIGTERM | SIGKILL

text \<open>
  What the supervisor does to the world outside, in the order it does it:
  \<^item> \<open>CtxCancel\<close>: the \<open>cancel()\<close> of the child's context;
  \<^item> \<open>RunCommand name args\<close>: \<open>exec.Command(name, args...).Run()\<close>, a build step
  run to its end;
  \<^item> \<open>StartProcess name args pid\<close>: a successful \<open>cmd.Start()\<close>, the child \<open>pid\<close> in a
  process group of its own;
  \<^item> \<open>GoRelay source level\<close>: \<open>go NewStreamReader(source, level).Read(pipe)\<close>, the
  goroutine that copies one output stream of the child to the log sink;
  \<^item> \<open>SendSignal pid sig\<close>: the signal \<open>sig\<close> sent to \<open>pid\<close>, a negative \<open>pid\<close> naming a
  process group: by \<open>syscall.Kill(pid, sig)\<close>, or by \<open>os/exec\<close> when the context of a
  started command is cancelled;
  \<^item> \<open>GoWait pid\<close>: the goroutine that waits for the child to exit and then logs it;
  \<^item> \<open>SleepMs n\<close>: \<open>time.Sleep\<close> of \<open>n\<close> milliseconds.

  The two \<open>lsof\<close> queries change nothing and are not recorded. What the goroutines
  write to the log sink later is not part of a command's own run and is not modelled.
\<close>

datatype effect =
    CtxCancel
  | RunCommand string "string list"
  | StartProcess string "string list" int
  | GoRelay string LogLevel
  | SendSignal int signal
  | GoWait int
  | SleepMs nat

text \<open>
  The answers of the operating system at one moment: the result of a command run to its
  end (its standard output, or the error of a run that failed or exited with a status
  other than 0), of the two pipe creations, of starting a process (its pid), of
  \<open>syscall.Getpgid\<close> and \<open>syscall.Kill\<close>, and the clock.
\<close>

record os =
  exec :: "string \<Rightarrow> string list \<Rightarrow> error + string"
  stdoutPipe :: "error option"
  stderrPipe :: "error option"
  startProcess :: "string \<Rightarrow> string list \<Rightarrow> error + int"
  getpgid :: "int \<Rightarrow> error + int"
  kill :: "int \<Rightarrow> signal \<Rightarrow> error option"
  clock :: time

text \<open>
  The environment gives the operating system's answers after any history of effects,
  so that a port can be free after a signal was sent and occupied after a process was
  started.
\<close>

type_synonym env = "effect list \<Rightarrow> os"

record ExecCmd =
  Process :: "int option"

text \<open>
  \<open>ServerProcess\<close>: the command of the child. Its field \<open>cancel\<close>, the function that
  cancels the context the command was made with, is the function \<open>cancel\<close> below.
\<close>

record ServerProcess =
  cmd :: "ExecCmd option"

text \<open>
  The process-wide state: the log sink \<open>globalLogger\<close>, the variable \<open>currentServer\<close>
  (\<open>None\<close> is \<open>nil\<close>), and the effects so far.
\<close>

record world =
  logger :: Logger
  currentServer :: "ServerProcess option"
  effects :: "effect list"

definition log :: "env \<Rightarrow> LogLevel \<Rightarrow> string \<Rightarrow> string \<Rightarrow> world \<Rightarrow> world" where
  "log env level source message w =
     w\<lparr>logger := Log (clock (env (effects w))) level source message (logger w)\<rparr>"

definition perform :: "effect \<Rightarrow> world \<Rightarrow> world" where
  "perform e w = w\<lparr>effects := effects w @ [e]\<rparr>"

text \<open>
  The \<open>cancel\<close> function of a \<open>ServerProcess\<close>. The child is made by
  \<open>exec.CommandContext(ctx, ...)\<close>: once it has been started, cancelling \<open>ctx\<close> makes
  \<open>os/exec\<close> call \<open>Process.Kill\<close>, which sends \<open>SIGKILL\<close> to the child itself (not to
  its group). That happens in a goroutine of \<open>os/exec\<close>, at once and alongside what the
  caller does next; the trace records it right after the cancellation. In \<open>Start\<close> the
  context is only ever cancelled before a command has been started under it, where
  nothing is killed.
\<close>

definition cancel :: "ServerProcess \<Rightarrow> world \<Rightarrow> world" where
  "cancel sp w =
     (case cmd sp of
        None \<Rightarrow> perform CtxCancel w
      | Some c \<Rightarrow>
          (case Process c of
             None \<Rightarrow> perform CtxCancel w
           | Some pid \<Rightarrow> perform (SendSignal pid SIGKILL) (perform CtxCancel w)))"

section \<open>The port inspector\<close>

text \<open>\<open>isPortInUse\<close>: \<open>lsof -i :port\<close> ran without error.\<close>

definition isPortInUse :: "os \<Rightarrow> int \<Rightarrow> bool" where
  "isPortInUse os port =
     (case exec os ''lsof'' [''-i'', '':'' @ Itoa port] of
        Inl err \<Rightarrow> False
      | Inr output \<Rightarrow> True)"

text \<open>\<open>getProcessByPort\<close>: the output of \<open>lsof -ti :port\<close>, trimmed and read as a number.\<close>

definition getProcessByPort :: "os \<Rightarrow> int \<Rightarrow> int" where
  "getProcessByPort os port =
     (case exec os ''lsof'' [''-ti'', '':'' @ Itoa port] of
        Inl err \<Rightarrow> 0
      | Inr output \<Rightarrow>
          (let pidStr = TrimSpace output
           in if pidStr = [] then 0
              else case Atoi pidStr of Inl err \<Rightarrow> 0 | Inr pid \<Rightarrow> pid))"

section \<open>The process supervisor\<close>

text \<open>
  Each command of the dashboard is a function that returns one message; here it also
  takes and returns the process-wide state.
\<close>

definition checkServerStatus :: "env \<Rightarrow> DashboardModel \<Rightarrow> world \<Rightarrow> ServerStatusMsg" where
  "checkServerStatus env m w =
     (let port = Port (server m)
      in if isPortInUse (env (effects w)) port
         then \<lparr>msg_Status = ServerRunning,
               msg_PID = getProcessByPort (env (effects w)) port, msg_Error = None\<rparr>
         else \<lparr>msg_Status = ServerStopped, msg_PID = 0, msg_Error = None\<rparr>)"

definition failed :: "error \<Rightarrow> ServerStatusMsg" where
  "failed err = \<lparr>msg_Status = ServerStopped, msg_PID = 0, msg_Error = Some err\<rparr>"

definition startServer :: "env \<Rightarrow> DashboardModel \<Rightarrow> world \<Rightarrow> ServerStatusMsg \<times> world" where
  "startServer env m w =
     (let port = Port (server m)
      in if isPortInUse (env (effects w)) port
         then (\<lparr>msg_Status = ServerRunning,
                msg_PID = getProcessByPort (env (effects w)) port, msg_Error = None\<rparr>, w)
         else
           let w1 = log env LogSystem ''cli'' ''Building WASM...'' w;
               built = exec (env (effects w1)) ''make'' [''wasm''];
               w2 = perform (RunCommand ''make'' [''wasm'']) w1
           in case built of
             Inl err \<Rightarrow>
               (failed (Errorf ''failed to build WASM: '' err),
                log env LogError ''cli'' (''Failed to build WASM: '' @ error_string err)
                  (perform CtxCancel w2))
           | Inr out \<Rightarrow>
           let w3 = log env LogSystem ''cli'' ''Building server...''
                      (log env LogSystem ''cli'' ''WASM build completed'' w2);
               built = exec (env (effects w3)) ''make'' [''server''];
               w4 = perform (RunCommand ''make'' [''server'']) w3
           in case built of
             Inl err \<Rightarrow>
               (failed (Errorf ''failed to build server: '' err),
                log env LogError ''cli'' (''Failed to build server: '' @ error_string err)
                  (perform CtxCancel w4))
           | Inr out \<Rightarrow>
           let w5 = log env LogSystem ''cli'' (''Starting server on port '' @ Itoa port)
                      (log env LogSystem ''cli'' ''Server build completed'' w4);
               args = [''-dev'', ''-port'', Itoa port]
           in case stdoutPipe (env (effects w5)) of
             Some err \<Rightarrow>
               (failed (Errorf ''failed to create stdout pipe: '' err),
                log env LogError ''cli'' (''Failed to create stdout pipe: '' @ error_string err)
                  (perform CtxCancel w5))
           | None \<Rightarrow>
           case stderrPipe (env (effects w5)) of
             Some err \<Rightarrow>
               (failed (Errorf ''failed to create stderr pipe: '' err),
                log env LogError ''cli'' (''Failed to create stderr pipe: '' @ error_string err)
                  (perform CtxCancel w5))
           | None \<Rightarrow>
           case startProcess (env (effects w5)) ''./bin/server'' args of
             Inl err \<Rightarrow>
               (failed (Errorf ''failed to start server: '' err),
                log env LogError ''cli'' (''Failed to start server: '' @ error_string err)
                  (perform CtxCancel w5))
           | Inr pid \<Rightarrow>
           let w6 = log env LogSystem ''cli'' (''Server started with PID '' @ Itoa pid)
                      (perform (StartProcess ''./bin/server'' args pid) w5);
               w7 = perform (GoRelay ''server'' LogError) (perform (GoRelay ''server'' LogInfo) w6);
               w8 = w7\<lparr>currentServer := Some \<lparr>cmd = Some \<lparr>Process = Some pid\<rparr>\<rparr>\<rparr>;
               w9 = log env LogSystem ''cli'' ''Server startup completed'' (perform (SleepMs 500) w8)
           in (\<lparr>msg_Status = ServerRunning, msg_PID = pid, msg_Error = None\<rparr>, w9))"

definition stopServer :: "env \<Rightarrow> DashboardModel \<Rightarrow> world \<Rightarrow> ServerStatusMsg \<times> world" where
  "stopServer env m w =
     (let w' =
        (case currentServer w of
           Some sp \<Rightarrow>
             let w1 = cancel sp (log env LogSystem ''cli'' ''Stopping server...'' w);
                 w2 = (case cmd sp of
                         None \<Rightarrow> w1
                       | Some c \<Rightarrow>
                           (case Process c of
                              None \<Rightarrow> w1
                            | Some pid \<Rightarrow>
                                let w3 = log env LogSystem ''cli''
                                           (''Terminating server process '' @ Itoa pid) w1;
                                    w4 = (case getpgid (env (effects w3)) pid of
                                            Inl err \<Rightarrow> w3
                                          | Inr pgid \<Rightarrow> perform (SendSignal (- pgid) SIGTERM) w3)
                                in perform (GoWait pid) w4))
             in w2\<lparr>currentServer := None\<rparr>
         | None \<Rightarrow>
             let w1 = log env LogSystem ''cli'' ''No active server process, checking port...'' w;
                 port = Port (server m);
                 pid = getProcessByPort (env (effects w1)) port
             in if pid > 0 then
                  let w2 = log env LogSystem ''cli''
                             (''Found process '' @ Itoa pid @ '' on port '' @ Itoa port
                                @ '', terminating'') w1;
                      sent = kill (env (effects w2)) pid SIGTERM;
                      w3 = perform (SendSignal pid SIGTERM) w2
                  in case sent of
                       None \<Rightarrow> w3
                     | Some err \<Rightarrow>
                         perform (SendSignal pid SIGKILL)
                           (log env LogWarning ''cli'' ''SIGTERM failed, using SIGKILL'' w3)
                else log env LogSystem ''cli'' ''No process found on port'' w1)
      in (\<lparr>msg_Status = ServerStopped, msg_PID = 0, msg_Error = None\<rparr>,
          log env LogSystem ''cli'' ''Server stopped'' w'))"

definition restartServer :: "env \<Rightarrow> DashboardModel \<Rightarrow> world \<Rightarrow> ServerStatusMsg \<times> world" where
  "restartServer env m w =
     (let w1 = log env LogSystem ''cli'' ''Restarting server...'' w;
          w2 = snd (stopServer env m w1);
          w3 = perform (SleepMs 2000) (log env LogSystem ''cli'' ''Waiting for cleanup...'' w2);
          w4 = log env LogSystem ''cli'' ''Starting server again...'' w3
      in startServer env m w4)"

section \<open>The dashboard controller\<close>

text \<open>
  \<open>NewDashboardModel\<close>, with the configured port \<open>viper.GetInt("server.port")\<close> and the
  clock reading as arguments. Fields that the source leaves out have Go's zero value.
  The entry \<open>Dashboard started\<close> that it logs first goes to the log sink, not to the
  model.
\<close>

definition NewDashboardModel :: "int \<Rightarrow> time \<Rightarrow> DashboardModel" where
  "NewDashboardModel port now =
     \<lparr>server = \<lparr>Status = ServerStopped, Port = port, PID = 0, Uptime = 0\<rparr>,
      requests = [], logs = [], selectedTab = 0,
      tabs = [''Server'', ''Requests'', ''Logs''],
      width = 0, height = 0, startTime = now, keyMap = DefaultKeyMap,
      lastError = [], showError = False\<rparr>"

text \<open>The messages of the event loop; \<open>OtherMsg\<close> is any message \<open>Update\<close> has no case for.\<close>

datatype Msg =
    WindowSizeMsg int int
  | KeyMsg string
  | tickMsg time
  | StatusMsg ServerStatusMsg
  | RequestLogsMsg "RequestLog list"
  | LogsUpdatedMsg "LogEntry list"
  | OtherMsg

text \<open>The commands \<open>Update\<close> hands back to the event loop (\<open>NoCmd\<close> is \<open>nil\<close>).\<close>

datatype Cmd =
    NoCmd
  | QuitCmd
  | StartServerCmd
  | StopServerCmd
  | RestartServerCmd
  | CheckServerStatusCmd
  | LoadRequestLogsCmd
  | LoadSystemLogsCmd
  | TickCmd
  | Batch "Cmd list"

datatype panic = IntegerDivideByZero

text \<open>A Go \<open>int\<close> has 64 bits: sums wrap around, and \<open>%\<close> truncates towards zero.\<close>

definition wrap64 :: "int \<Rightarrow> int" where
  "wrap64 i = (i + 2 ^ 63) mod 2 ^ 64 - 2 ^ 63"

definition go_rem :: "int \<Rightarrow> int \<Rightarrow> panic + int" where
  "go_rem a b = (if b = 0 then Inl IntegerDivideByZero else Inr (a smod b))"

text \<open>
  \<open>DashboardModel.Update\<close>; \<open>now\<close> is the clock reading. \<open>updateUptime\<close> has a value
  receiver: it changes a copy of the model, so the tick leaves the model as it is.
\<close>

definition Update :: "time \<Rightarrow> Msg \<Rightarrow> DashboardModel \<Rightarrow> panic + (DashboardModel \<times> Cmd)" where
  "Update now msg m =
     (case msg of
        WindowSizeMsg w h \<Rightarrow> Inr (m\<lparr>width := w, height := h\<rparr>, NoCmd)
      | KeyMsg k \<Rightarrow>
          if Matches k (Quit (keyMap m)) then Inr (m, QuitCmd)
          else if Matches k (Start (keyMap m)) then
            (if Status (server m) = ServerStopped then Inr (m, StartServerCmd)
             else Inr (m, NoCmd))
          else if Matches k (Stop (keyMap m)) then
            (if Status (server m) = ServerRunning then Inr (m, StopServerCmd)
             else Inr (m, NoCmd))
          else if Matches k (Restart (keyMap m)) then
            (if Status (server m) = ServerRunning then Inr (m, RestartServerCmd)
             else Inr (m, NoCmd))
          else if Matches k (NextTab (keyMap m)) then
            (case go_rem (wrap64 (selectedTab m + 1)) (int (length (tabs m))) of
               Inl p \<Rightarrow> Inl p
             | Inr t \<Rightarrow> Inr (m\<lparr>selectedTab := t\<rparr>, NoCmd))
          else if Matches k (PrevTab (keyMap m)) then
            (case go_rem (wrap64 (wrap64 (selectedTab m - 1) + int (length (tabs m))))
                         (int (length (tabs m))) of
               Inl p \<Rightarrow> Inl p
             | Inr t \<Rightarrow> Inr (m\<lparr>selectedTab := t\<rparr>, NoCmd))
          else if Matches k (Refresh (keyMap m)) then Inr (m, CheckServerStatusCmd)
          else if Matches k (Clear (keyMap m)) then
            Inr (m\<lparr>showError := False, lastError := []\<rparr>, NoCmd)
          else Inr (m, NoCmd)
      | tickMsg t \<Rightarrow>
          Inr (m, Batch [CheckServerStatusCmd, LoadRequestLogsCmd, LoadSystemLogsCmd, TickCmd])
      | StatusMsg s \<Rightarrow>
          let m1 = m\<lparr>server := (server m)\<lparr>Status := msg_Status s, PID := msg_PID s\<rparr>\<rparr>;
              m2 = (case msg_Error s of
                      Some err \<Rightarrow> m1\<lparr>lastError := error_string err, showError := True\<rparr>
                    | None \<Rightarrow> m1\<lparr>showError := False\<rparr>);
              m3 = (if msg_Status s = ServerRunning \<and> startTime m2 = 0
                    then m2\<lparr>startTime := now\<rparr> else m2);
              m4 = (if msg_Status s = ServerStopped
                    then m3\<lparr>startTime := 0, server := (server m3)\<lparr>Uptime := 0\<rparr>\<rparr> else m3)
          in Inr (m4, NoCmd)
      | RequestLogsMsg ls \<Rightarrow> Inr (m\<lparr>requests := ls\<rparr>, NoCmd)
      | LogsUpdatedMsg ls \<Rightarrow> Inr (m\<lparr>logs := ls\<rparr>, NoCmd)
      | OtherMsg \<Rightarrow> Inr (m, NoCmd))"

text \<open>
  What \<open>View\<close> shows of the error slot. While the width is 0, \<open>View\<close> returns only
  \<open>Initializing...\<close>; otherwise \<open>renderError\<close>, the text \<open>lastError\<close>, is part of the view
  exactly when \<open>showError\<close> is set.
\<close>

definition shownError :: "DashboardModel \<Rightarrow> string option" where
  "shownError m =
     (if width m = 0 then None
      else if showError m then Some (lastError m)
      else None)"

section \<open>Sequences of calls and sample data\<close>

text \<open>The entry that one call \<open>Log now level source message\<close> appends.\<close>

definition mk_entry :: "time \<times> LogLevel \<times> string \<times> string \<Rightarrow> LogEntry" where
  "mk_entry c = (case c of (now, level, source, message) \<Rightarrow>
      \<lparr>Timestamp = now, Level = level, Source = source, Message = TrimSpace message\<rparr>)"

text \<open>A sequence of \<open>Log\<close> calls, the first of the list first.\<close>

fun Log_calls :: "(time \<times> LogLevel \<times> string \<times> string) list \<Rightarrow> Logger \<Rightarrow> Logger" where
  "Log_calls [] l = l"
| "Log_calls ((now, level, source, message) # cs) l = Log_calls cs (Log now level source message l)"

text \<open>501 calls from the server's output relay, and a logger after four calls.\<close>

definition demo_calls :: "(time \<times> LogLevel \<times> string \<times> string) list" where
  "demo_calls = map (\<lambda>i. (i, LogInfo, ''server'', ''request served'')) [0..<501]"

definition demo_logger :: Logger where
  "demo_logger =
     Log_calls [(1, LogSystem, ''cli'', ''Dashboard started''),
                (2, LogInfo, ''server'', '' listening ''),
                (3, LogError, ''server'', ''bind failed''),
                (4, LogInfo, ''server'', ''ready'')] globalLogger"

text \<open>Sample operating systems, models and worlds on port 8080.\<close>

definition newline :: string where
  "newline = [CHR 0x0A]"

text \<open>No listener on any port: \<open>lsof\<close> exits with status 1; every other command succeeds.\<close>

definition os_port_free :: os where
  "os_port_free =
     \<lparr>exec = (\<lambda>name args. if name = ''lsof'' then Inl (OSError ''exit status 1'') else Inr []),
      stdoutPipe = None, stderrPipe = None,
      startProcess = (\<lambda>name args. Inr 4242),
      getpgid = (\<lambda>pid. Inr pid),
      kill = (\<lambda>pid sig. None),
      clock = 1000\<rparr>"

text \<open>Process 4242 listens on port 8080.\<close>

definition os_occupied :: os where
  "os_occupied =
     os_port_free\<lparr>exec := (\<lambda>name args.
        if name = ''lsof'' \<and> args = [''-ti'', '':8080''] then Inr (''4242'' @ newline)
        else if name = ''lsof'' then Inr (''server 4242 user 3u IPv4 TCP *:8080 (LISTEN)'' @ newline)
        else Inr [])\<rparr>"

text \<open>Two processes share port 8080: \<open>lsof -t\<close> prints one pid per line.\<close>

definition os_shared_port :: os where
  "os_shared_port =
     os_port_free\<lparr>exec := (\<lambda>name args.
        if name = ''lsof'' \<and> args = [''-ti'', '':8080'']
        then Inr (''1234'' @ newline @ ''5678'' @ newline)
        else Inr [])\<rparr>"

definition model8080 :: DashboardModel where
  "model8080 = NewDashboardModel 8080 1000"

definition world0 :: world where
  "world0 = \<lparr>logger = globalLogger, currentServer = None, effects = []\<rparr>"

text \<open>Counting the child processes started so far.\<close>

fun is_StartProcess :: "effect \<Rightarrow> bool" where
  "is_StartProcess (StartProcess name args pid) = True"
| "is_StartProcess e = False"

definition spawned :: "world \<Rightarrow> nat" where
  "spawned w = length (filter is_StartProcess (effects w))"

text \<open>An environment in which port 8080 is free until the supervisor has started its child.\<close>

definition env_supervised :: env where
  "env_supervised trace = (if list_ex is_StartProcess trace then os_occupied else os_port_free)"

text \<open>Two processes share port 8080, whatever the supervisor has done.\<close>

definition env_shared_port :: env where
  "env_shared_port trace = os_shared_port"

text \<open>
  The child never binds the port: port 8080 stays free. The first child started has
  the pid 4242, any later one 4343.
\<close>

definition env_unbound :: env where
  "env_unbound trace =
     os_port_free\<lparr>startProcess := (\<lambda>name args.
        if list_ex is_StartProcess trace then Inr 4343 else Inr 4242)\<rparr>"

text \<open>The model of the dashboard once it has learnt that process 4242 runs the server.\<close>

definition model_running :: DashboardModel where
  "model_running =
     model8080\<lparr>server := (server model8080)\<lparr>Status := ServerRunning, PID := 4242\<rparr>\<rparr>"

text \<open>A sequence of \<open>Start\<close> calls, each in an environment of its own.\<close>

fun start_calls :: "env list \<Rightarrow> DashboardModel \<Rightarrow> world \<Rightarrow> world" where
  "start_calls [] m w = w"
| "start_calls (env # envs) m w = start_calls envs m (snd (startServer env m w))"



text \<open>The world after one successful \<open>Start\<close> from the initial world.\<close>

definition world_running :: world where
  "world_running = snd (startServer env_supervised model8080 world0)"

text \<open>The port is free and every \<open>make\<close> fails.\<close>

definition os_build_fails :: os where
  "os_build_fails =
     os_port_free\<lparr>exec := (\<lambda>name args.
        if name = ''make'' then Inl (OSError ''exit status 2'')
        else Inl (OSError ''exit status 1''))\<rparr>"

definition env_build_fails :: env where
  "env_build_fails trace = os_build_fails"

text \<open>The entries of severity \<open>LogSystem\<close> in the log sink.\<close>

definition system_entries :: "world \<Rightarrow> LogEntry list" where
  "system_entries w = filter (\<lambda>e. Level e = LogSystem) (entries (logger w))"

text \<open>Process 4242 owns the port, and \<open>syscall.Getpgid\<close> fails.\<close>

definition os_no_pgid :: os where
  "os_no_pgid = os_occupied\<lparr>getpgid := (\<lambda>pid. Inl (OSError ''no such process''))\<rparr>"

text \<open>Process 4242 owns the port and cannot be sent \<open>SIGTERM\<close>.\<close>

definition os_external :: os where
  "os_external =
     os_occupied\<lparr>kill := (\<lambda>pid sig.
        if sig = SIGTERM then Some (OSError ''operation not permitted'') else None)\<rparr>"

definition env_external :: env where
  "env_external trace = os_external"

definition env_no_pgid :: env where
  "env_no_pgid trace = os_no_pgid"

text \<open>The signals sent so far.\<close>

fun is_SendSignal :: "effect \<Rightarrow> bool" where
  "is_SendSignal (SendSignal pid sig) = True"
| "is_SendSignal e = False"

definition signals :: "world \<Rightarrow> effect list" where
  "signals w = filter is_SendSignal (effects w)"

text \<open>
  A command of the event loop is a function that returns one message: what reaches
  \<open>Update\<close> from a run of it is that message, once the function has returned.
\<close>

definition delivered :: "ServerStatusMsg \<times> world \<Rightarrow> ServerStatusMsg list" where
  "delivered r = [fst r]"

text \<open>
  Port 8080 is owned by the child 4242 until the cooldown of a restart has passed; then
  it is free, and the next child started has the pid 4343.
\<close>

definition env_restart :: env where
  "env_restart trace =
     (if SleepMs 2000 \<in> set trace
      then os_port_free\<lparr>startProcess := (\<lambda>name args. Inr 4343)\<rparr>
      else os_occupied)"

text \<open>The event loop: messages handled one after the other, each at its clock reading.\<close>

fun run_msgs :: "(time \<times> Msg) list \<Rightarrow> DashboardModel \<Rightarrow> panic + DashboardModel" where
  "run_msgs [] m = Inr m"
| "run_msgs ((now, msg) # ms) m =
     (case Update now msg m of
        Inl p \<Rightarrow> Inl p
      | Inr (m', c) \<Rightarrow> run_msgs ms m')"

text \<open>
  The message is a key that reaches the clear-error case of \<open>Update\<close>: bound to
  \<open>Clear\<close> and to none of the bindings tried before it.
\<close>

definition is_clear_error :: "KeyMap \<Rightarrow> Msg \<Rightarrow> bool" where
  "is_clear_error km msg =
     (case msg of
        KeyMsg k \<Rightarrow>
          Matches k (Clear km) \<and> \<not> Matches k (Quit km) \<and> \<not> Matches k (Start km) \<and>
          \<not> Matches k (Stop km) \<and> \<not> Matches k (Restart km) \<and> \<not> Matches k (NextTab km) \<and>
          \<not> Matches k (PrevTab km) \<and> \<not> Matches k (Refresh km)
      | _ \<Rightarrow> False)"

fun is_StatusMsg :: "Msg \<Rightarrow> bool" where
  "is_StatusMsg (StatusMsg s) = True"
| "is_StatusMsg msg = False"

text \<open>The message is a window size of width 0, upon which \<open>View\<close> shows only \<open>Initializing...\<close>.\<close>

fun is_zero_width :: "Msg \<Rightarrow> bool" where
  "is_zero_width (WindowSizeMsg w h) = (w = 0)"
| "is_zero_width msg = False"

text \<open>
  A failed build, the model of a window of 120 by 40 before and after it, and messages
  that are neither a status nor clear-error.
\<close>

definition build_error :: error where
  "build_error = Errorf ''failed to build WASM: '' (OSError ''exit status 2'')"

definition model_sized :: DashboardModel where
  "model_sized = model8080\<lparr>width := 120, height := 40\<rparr>"

definition model_failed :: DashboardModel where
  "model_failed =
     model_sized\<lparr>server := (server model_sized)\<lparr>Status := ServerStopped, PID := 0, Uptime := 0\<rparr>,
                 lastError := ''failed to build WASM: exit status 2'', showError := True,
                 startTime := 0\<rparr>"

definition quiet_msgs :: "(time \<times> Msg) list" where
  "quiet_msgs =
     [(3000, tickMsg 3000), (3100, KeyMsg ''tab''), (3200, WindowSizeMsg 120 40),
      (3300, LogsUpdatedMsg []), (3400, RequestLogsMsg []), (3500, KeyMsg ''s''),
      (3600, KeyMsg ''f5''), (3700, OtherMsg)]"

section \<open>Properties of the log sink\<close>

lemma entries_Log:
  "entries (Log now level source message l) =
     (if length (entries l) \<ge> 500 then tl (entries l @ [mk_entry (now, level, source, message)])
      else entries l @ [mk_entry (now, level, source, message)])"
  by (simp add: Log_def mk_entry_def Let_def)

lemma entries_Log_bounded:
  assumes "length (entries l) \<le> 500"
  shows "entries (Log now level source message l) =
     drop (length (entries l) + 1 - 500) (entries l @ [mk_entry (now, level, source, message)])"
proof (cases "length (entries l) = 500")
  case True
  then have "entries l \<noteq> []" by auto
  with True show ?thesis by (simp add: entries_Log drop_Suc)
next
  case False
  with assms have "length (entries l) < 500" by simp
  then show ?thesis by (simp add: entries_Log)
qed

lemma length_entries_Log:
  "length (entries l) \<le> 500 \<Longrightarrow> length (entries (Log now level source message l)) \<le> 500"
  by (simp add: entries_Log)

lemma entries_Log_calls:
  "length (entries l) \<le> 500 \<Longrightarrow>
   entries (Log_calls cs l) =
     drop (length (entries l) + length cs - 500) (entries l @ map mk_entry cs)"
proof (induction cs arbitrary: l)
  case Nil
  then show ?case by simp
next
  case (Cons c cs)
  obtain now level source message where c: "c = (now, level, source, message)"
    by (cases c) auto
  let ?l = "Log now level source message l"
  let ?e = "mk_entry (now, level, source, message)"
  have len: "length (entries ?l) \<le> 500"
    using Cons.prems by (rule length_entries_Log)
  have step: "entries ?l = drop (length (entries l) + 1 - 500) (entries l @ [?e])"
    using Cons.prems by (rule entries_Log_bounded)
  have "entries (Log_calls (c # cs) l) = entries (Log_calls cs ?l)"
    by (simp add: c)
  also have "\<dots> = drop (length (entries ?l) + length cs - 500) (entries ?l @ map mk_entry cs)"
    using len by (rule Cons.IH)
  also have "\<dots> = drop (length (entries l) + length (c # cs) - 500) (entries l @ map mk_entry (c # cs))"
  proof (cases "length (entries l) = 500")
    case True
    then show ?thesis by (simp add: step c drop_Suc drop_tl tl_append split: list.splits)
  next
    case False
    with Cons.prems have "length (entries l) < 500" by simp
    then show ?thesis by (simp add: step c)
  qed
  finally show ?case .
qed

text \<open>Every logger reached from the initial one by \<open>Log\<close> calls is within the capacity.\<close>

lemma length_entries_reachable: "length (entries (Log_calls cs globalLogger)) \<le> 500"
  by (simp add: entries_Log_calls globalLogger_def)

lemma GetRecentLogs_all:
  "limit \<le> 0 \<or> limit > int (length (entries l)) \<Longrightarrow> GetRecentLogs l limit = entries l"
  by (auto simp: GetRecentLogs_def Let_def)

lemma GetRecentLogs_some:
  "0 < limit \<Longrightarrow> limit \<le> int (length (entries l)) \<Longrightarrow>
   GetRecentLogs l limit = drop (length (entries l) - nat limit) (entries l)"
  by (auto simp: GetRecentLogs_def Let_def nat_diff_distrib)


text \<open>
  Claim C3. After more than 500 \<open>Log\<close> calls on a logger within its capacity,
  \<open>GetRecentLogs 0\<close> returns exactly the entries of the last 500 calls, in the order
  of the calls, and \<open>GetRecentLogs 10\<close> those of the last 10. For any logger \<open>m\<close>, a
  limit \<open>k\<close> with \<open>0 < k\<close> up to the size of the buffer gives exactly the last \<open>k\<close>
  entries of the buffer in their order, and a limit \<open>j\<close> that is at most 0 or exceeds
  the size of the buffer gives the whole buffer.
\<close>

theorem RecentEntries_after_Log_calls:
  assumes "length (entries l) \<le> 500" and "length cs > 500"
  shows "GetRecentLogs (Log_calls cs l) 0 = drop (length cs - 500) (map mk_entry cs) \<and>
         length (GetRecentLogs (Log_calls cs l) 0) = 500 \<and>
         GetRecentLogs (Log_calls cs l) 10 = drop (length cs - 10) (map mk_entry cs) \<and>
         length (GetRecentLogs (Log_calls cs l) 10) = 10 \<and>
         (0 < k \<and> k \<le> int (length (entries m)) \<longrightarrow>
            GetRecentLogs m k = drop (length (entries m) - nat k) (entries m) \<and>
            int (length (GetRecentLogs m k)) = k) \<and>
         (j \<le> 0 \<or> j > int (length (entries m)) \<longrightarrow> GetRecentLogs m j = entries m)"
proof -
  let ?l = "Log_calls cs l"
  have es: "entries ?l = drop (length cs - 500) (map mk_entry cs)"
    using assms by (simp add: entries_Log_calls)
  have len: "length (entries ?l) = 500"
    using assms by (simp add: es)
  have "GetRecentLogs ?l 0 = entries ?l"
    by (rule GetRecentLogs_all) simp
  then have all: "GetRecentLogs ?l 0 = drop (length cs - 500) (map mk_entry cs)"
    and all_len: "length (GetRecentLogs ?l 0) = 500"
    using es len by simp_all
  have "GetRecentLogs ?l 10 = drop (length (entries ?l) - nat 10) (entries ?l)"
    by (rule GetRecentLogs_some) (simp_all add: len)
  then have ten: "GetRecentLogs ?l 10 = drop (length cs - 10) (map mk_entry cs)"
    using assms by (simp add: es)
  then have ten_len: "length (GetRecentLogs ?l 10) = 10"
    using assms by simp
  have some: "0 < k \<and> k \<le> int (length (entries m)) \<longrightarrow>
            GetRecentLogs m k = drop (length (entries m) - nat k) (entries m) \<and>
            int (length (GetRecentLogs m k)) = k"
    by (auto simp: GetRecentLogs_some)
  have rest: "j \<le> 0 \<or> j > int (length (entries m)) \<longrightarrow> GetRecentLogs m j = entries m"
    using GetRecentLogs_all [of j m] by blast
  from all all_len ten ten_len some rest show ?thesis
    by (intro conjI)
qed

theorem RecentEntries_after_Log_calls_witness:
  "length (entries globalLogger) \<le> 500 \<and> length demo_calls > 500 \<and>
   GetRecentLogs (Log_calls demo_calls globalLogger) 10 =
     map (\<lambda>i. \<lparr>Timestamp = i, Level = LogInfo, Source = ''server'',
                Message = ''request served''\<rparr>) [491..<501] \<and>
   (0::int) < 2 \<and> 2 \<le> int (length (entries demo_logger)) \<and>
   map Message (GetRecentLogs demo_logger 2) = [''bind failed'', ''ready''] \<and>
   map Message (GetRecentLogs demo_logger 0) =
     [''Dashboard started'', ''listening'', ''bind failed'', ''ready'']"
proof -
  have t: "TrimSpace ''request served'' = ''request served''" by code_simp
  have d: "entries demo_logger =
     [\<lparr>Timestamp = 1, Level = LogSystem, Source = ''cli'', Message = ''Dashboard started''\<rparr>,
      \<lparr>Timestamp = 2, Level = LogInfo, Source = ''server'', Message = ''listening''\<rparr>,
      \<lparr>Timestamp = 3, Level = LogError, Source = ''server'', Message = ''bind failed''\<rparr>,
      \<lparr>Timestamp = 4, Level = LogInfo, Source = ''server'', Message = ''ready''\<rparr>]"
    by code_simp
  have h1: "length (entries globalLogger) \<le> 500" by (simp add: globalLogger_def)
  have h2: "length demo_calls > 500" by (simp add: demo_calls_def)
  show ?thesis
    using RecentEntries_after_Log_calls [OF h1 h2, of 2 demo_logger 0] h1 h2
    by (simp add: d demo_calls_def drop_map mk_entry_def t)
qed

text \<open>
  Claim C7. Round trip: after \<open>Log now level source message\<close>, whatever the limit,
  \<open>GetRecentLogs\<close> returns a list that is not empty and whose last (most recent) entry
  has that level, that source, and the message trimmed of white space.
\<close>

theorem Log_RecentEntries_roundtrip:
  "GetRecentLogs (Log now level source message l) limit \<noteq> [] \<and>
   Level (last (GetRecentLogs (Log now level source message l) limit)) = level \<and>
   Source (last (GetRecentLogs (Log now level source message l) limit)) = source \<and>
   Message (last (GetRecentLogs (Log now level source message l) limit)) = TrimSpace message"
proof -
  let ?l = "Log now level source message l"
  let ?e = "mk_entry (now, level, source, message)"
  have "entries ?l \<noteq> [] \<and> last (entries ?l) = ?e"
  proof (cases "500 \<le> length (entries l)")
    case True
    then have "entries l \<noteq> []" by auto
    with True show ?thesis by (simp add: entries_Log)
  next
    case False
    then show ?thesis by (simp add: entries_Log)
  qed
  then have ne: "entries ?l \<noteq> []" and la: "last (entries ?l) = ?e"
    by simp_all
  have "GetRecentLogs ?l limit \<noteq> [] \<and> last (GetRecentLogs ?l limit) = last (entries ?l)"
  proof (cases "limit \<le> 0 \<or> limit > int (length (entries ?l))")
    case True
    then show ?thesis using ne by (simp add: GetRecentLogs_all)
  next
    case False
    then have "0 < limit" "limit \<le> int (length (entries ?l))" by auto
    then show ?thesis using ne by (simp add: GetRecentLogs_some)
  qed
  with la show ?thesis by (simp add: mk_entry_def)
qed

text \<open>
  Claim C9. Every entry that \<open>GetLogsBySource l s limit\<close> returns has the source \<open>s\<close>;
  with a positive limit the list has at most \<open>limit\<close> entries, and they are the last
  ones of the buffer's entries with source \<open>s\<close>.
\<close>

theorem EntriesBySource_filter:
  "(\<forall>e \<in> set (GetLogsBySource l s limit). Source e = s) \<and>
   (limit > 0 \<longrightarrow>
      int (length (GetLogsBySource l s limit)) \<le> limit \<and>
      GetLogsBySource l s limit =
        drop (length (filter (\<lambda>e. Source e = s) (entries l)) - nat limit)
             (filter (\<lambda>e. Source e = s) (entries l)))"
proof -
  let ?f = "filter (\<lambda>e. Source e = s) (entries l)"
  have a: "\<forall>e \<in> set (GetLogsBySource l s limit). Source e = s"
    by (auto simp: GetLogsBySource_def Let_def dest: in_set_dropD)
  have b: "int (length (GetLogsBySource l s limit)) \<le> limit" if "limit > 0"
    using that by (auto simp: GetLogsBySource_def Let_def)
  have c: "GetLogsBySource l s limit = drop (length ?f - nat limit) ?f" if "limit > 0"
    using that by (auto simp: GetLogsBySource_def Let_def nat_diff_distrib)
  from a b c show ?thesis by blast
qed

theorem EntriesBySource_filter_witness:
  "GetLogsBySource demo_logger ''server'' 2 =
     [\<lparr>Timestamp = 3, Level = LogError, Source = ''server'', Message = ''bind failed''\<rparr>,
      \<lparr>Timestamp = 4, Level = LogInfo, Source = ''server'', Message = ''ready''\<rparr>] \<and>
   map Source (GetLogsBySource demo_logger ''server'' 2) = [''server'', ''server''] \<and>
   (2::int) > 0 \<and> int (length (GetLogsBySource demo_logger ''server'' 2)) \<le> 2"
proof -
  have d: "entries demo_logger =
     [\<lparr>Timestamp = 1, Level = LogSystem, Source = ''cli'', Message = ''Dashboard started''\<rparr>,
      \<lparr>Timestamp = 2, Level = LogInfo, Source = ''server'', Message = ''listening''\<rparr>,
      \<lparr>Timestamp = 3, Level = LogError, Source = ''server'', Message = ''bind failed''\<rparr>,
      \<lparr>Timestamp = 4, Level = LogInfo, Source = ''server'', Message = ''ready''\<rparr>]"
    by code_simp
  show ?thesis
    using EntriesBySource_filter [of demo_logger "''server''" 2]
    by (simp add: d)
qed

section \<open>Properties of the port inspector\<close>

lemma Itoa_8080: "Itoa 8080 = ''8080''"
  by code_simp

lemma Port_model8080: "Port (server model8080) = 8080"
  by (simp add: model8080_def NewDashboardModel_def)

text \<open>
  Claim C8. \<open>lsof\<close> exits with a status other than 0 when nothing listens on the port,
  so both that case and a lookup that fails are an error result of the command. Then,
  for every port, \<open>isPortInUse\<close> is false and \<open>getProcessByPort\<close> is 0 (also when the
  listing succeeds with blank output); both return plain values, and the status check
  built on them reports \<open>Stopped\<close>, pid 0, with no error.
\<close>

theorem lookup_failure_not_occupied:
  "(exec os ''lsof'' [''-i'', '':'' @ Itoa port] = Inl e1 \<longrightarrow> isPortInUse os port = False) \<and>
   (exec os ''lsof'' [''-ti'', '':'' @ Itoa port] = Inl e2 \<longrightarrow> getProcessByPort os port = 0) \<and>
   (exec os ''lsof'' [''-ti'', '':'' @ Itoa port] = Inr output \<and> TrimSpace output = [] \<longrightarrow>
      getProcessByPort os port = 0) \<and>
   (exec (env (effects w)) ''lsof'' [''-i'', '':'' @ Itoa (Port (server m))] = Inl e3 \<longrightarrow>
      checkServerStatus env m w = \<lparr>msg_Status = ServerStopped, msg_PID = 0, msg_Error = None\<rparr>)"
  by (simp add: isPortInUse_def getProcessByPort_def checkServerStatus_def)

theorem lookup_failure_not_occupied_witness:
  "exec os_port_free ''lsof'' [''-i'', '':'' @ Itoa 8080] = Inl (OSError ''exit status 1'') \<and>
   exec os_port_free ''lsof'' [''-ti'', '':'' @ Itoa 8080] = Inl (OSError ''exit status 1'') \<and>
   isPortInUse os_port_free 8080 = False \<and> getProcessByPort os_port_free 8080 = 0 \<and>
   checkServerStatus env_supervised model8080 world0 =
     \<lparr>msg_Status = ServerStopped, msg_PID = 0, msg_Error = None\<rparr>"
  using lookup_failure_not_occupied [of os_port_free 8080 "OSError ''exit status 1''"
      "OSError ''exit status 1''" "[]" env_supervised world0 model8080 "OSError ''exit status 1''"]
  by (simp add: os_port_free_def env_supervised_def world0_def Port_model8080)

text \<open>
  Claim C10. When the port is in use and the listing of its owners succeeds with an
  output that, trimmed, is not one integer (several pids, one per line),
  \<open>getProcessByPort\<close> returns 0 and the status check reports \<open>Running\<close> with pid 0.
\<close>

theorem unparsable_listing_pid_zero:
  assumes "isPortInUse (env (effects w)) (Port (server m))"
    and "exec (env (effects w)) ''lsof'' [''-ti'', '':'' @ Itoa (Port (server m))] = Inr output"
    and "Atoi (TrimSpace output) = Inl err"
  shows "getProcessByPort (env (effects w)) (Port (server m)) = 0 \<and>
         checkServerStatus env m w = \<lparr>msg_Status = ServerRunning, msg_PID = 0, msg_Error = None\<rparr>"
  using assms by (simp add: getProcessByPort_def checkServerStatus_def Let_def)

theorem unparsable_listing_pid_zero_witness:
  "isPortInUse os_shared_port 8080 \<and>
   exec os_shared_port ''lsof'' [''-ti'', '':'' @ Itoa 8080] =
     Inr (''1234'' @ newline @ ''5678'' @ newline) \<and>
   Atoi (TrimSpace (''1234'' @ newline @ ''5678'' @ newline)) =
     Inl (NumError (''1234'' @ newline @ ''5678'') ''invalid syntax'') \<and>
   getProcessByPort os_shared_port 8080 = 0 \<and>
   checkServerStatus (\<lambda>trace. os_shared_port) model8080 world0 =
     \<lparr>msg_Status = ServerRunning, msg_PID = 0, msg_Error = None\<rparr>"
proof -
  have a: "Atoi (TrimSpace (''1234'' @ newline @ ''5678'' @ newline)) =
     Inl (NumError (''1234'' @ newline @ ''5678'') ''invalid syntax'')"
    by code_simp
  have p: "isPortInUse os_shared_port 8080"
    by (simp add: isPortInUse_def os_shared_port_def os_port_free_def Itoa_8080)
  have e: "exec os_shared_port ''lsof'' [''-ti'', '':'' @ Itoa 8080] =
     Inr (''1234'' @ newline @ ''5678'' @ newline)"
    by (simp add: os_shared_port_def os_port_free_def Itoa_8080)
  show ?thesis
    using unparsable_listing_pid_zero [of "\<lambda>trace. os_shared_port" world0 model8080
        "''1234'' @ newline @ ''5678'' @ newline"
        "NumError (''1234'' @ newline @ ''5678'') ''invalid syntax''"] a p e
    by (simp add: Port_model8080)
qed

text \<open>
  When the listing is one pid and a line end, the lookup returns that pid: trimming
  leaves the digits, and \<open>Atoi\<close> reads back what \<open>Itoa\<close> printed.
\<close>

lemma space_runes_heads:
  "list_all (\<lambda>p. p \<noteq> [] \<and> \<not> is_digit (hd p)) space_runes"
  by code_simp

lemma space_runes_lasts:
  "list_all (\<lambda>p. p \<noteq> [] \<and> \<not> is_digit (hd p)) (map rev space_runes)"
  by code_simp

lemma strip_runes_digit:
  assumes "s \<noteq> []" and "is_digit (hd s)"
    and "list_all (\<lambda>p. p \<noteq> [] \<and> \<not> is_digit (hd p)) ps"
  shows "strip_runes ps s = s"
proof -
  have "\<not> (p \<noteq> [] \<and> take (length p) s = p)" if "p \<in> set ps" for p
  proof
    assume a: "p \<noteq> [] \<and> take (length p) s = p"
    then have "hd (take (length p) s) = hd p" by simp
    moreover have "hd (take (length p) s) = hd s"
      using a assms(1) by (cases s; cases p) auto
    ultimately have "is_digit (hd p)" using assms(2) by simp
    moreover from that assms(3) have "\<not> is_digit (hd p)"
      by (simp add: list_all_iff)
    ultimately show False by simp
  qed
  then have "find (\<lambda>p. p \<noteq> [] \<and> take (length p) s = p) ps = None"
    by (simp add: find_None_iff)
  then show ?thesis by (subst strip_runes.simps) simp
qed

lemma strip_runes_newline:
  "strip_runes (map rev space_runes) (CHR 0x0A # s) = strip_runes (map rev space_runes) s"
  by (subst strip_runes.simps) (simp add: space_runes_def)

lemma TrimSpace_digits_newline:
  assumes "ds \<noteq> []" and "list_all is_digit ds"
  shows "TrimSpace (ds @ newline) = ds"
proof -
  have h: "is_digit (hd (ds @ newline))"
    using assms by (cases ds) simp_all
  have l: "is_digit (hd (rev ds))"
    using assms by (simp add: hd_rev list_all_iff)
  have "strip_runes space_runes (ds @ newline) = ds @ newline"
    using assms(1) h space_runes_heads by (intro strip_runes_digit) simp_all
  moreover have "strip_runes (map rev space_runes) (rev (ds @ newline)) = rev ds"
    using assms(1) l space_runes_lasts
    by (simp add: newline_def strip_runes_newline strip_runes_digit)
  ultimately show ?thesis by (simp add: TrimSpace_def)
qed

lemma of_char_digit: "0 \<le> n \<Longrightarrow> n < 10 \<Longrightarrow> (of_char (char_of (48 + n :: int)) :: int) = 48 + n"
  by simp

lemma is_digit_char_of: "0 \<le> k \<Longrightarrow> k < 10 \<Longrightarrow> is_digit (char_of (48 + k :: int))"
  by (simp add: is_digit_def)

lemma digits_all_digit: "0 \<le> n \<Longrightarrow> digits n \<noteq> [] \<and> list_all is_digit (digits n)"
proof (induction n rule: digits.induct)
  case (1 n)
  show ?case
  proof (cases "n < 10")
    case True
    with 1 show ?thesis by (subst (1 2) digits.simps) (simp add: is_digit_char_of)
  next
    case False
    then have "0 \<le> n div 10" "0 \<le> n mod 10" "n mod 10 < 10" by simp_all
    with 1 False show ?thesis by (subst (1 2) digits.simps) (simp add: is_digit_char_of)
  qed
qed

lemma digits_value_snoc:
  "digits_value (ds @ [c]) = 10 * digits_value ds + (of_char c - 48)"
  by (simp add: digits_value_def)

lemma digits_value_digits: "0 \<le> n \<Longrightarrow> digits_value (digits n) = n"
proof (induction n rule: digits.induct)
  case (1 n)
  show ?case
  proof (cases "n < 10")
    case True
    with 1 show ?thesis by (subst digits.simps) (simp add: digits_value_def)
  next
    case False
    then have "0 \<le> n div 10" "0 \<le> n mod 10" "n mod 10 < 10" by simp_all
    with 1 False show ?thesis by (subst digits.simps) (simp add: digits_value_snoc)
  qed
qed

lemma Atoi_Itoa: "0 \<le> p \<Longrightarrow> p < 2 ^ 63 \<Longrightarrow> Atoi (Itoa p) = Inr p"
proof -
  assume p: "0 \<le> p" "p < 2 ^ 63"
  let ?s = "digits p"
  from p have d: "?s \<noteq> []" "list_all is_digit ?s" using digits_all_digit by simp_all
  then have "is_digit (hd ?s)" by (cases ?s) simp_all
  then have "hd ?s \<noteq> CHR ''-''" "hd ?s \<noteq> CHR ''+''"
    by (auto simp: is_digit_def)
  with d p show ?thesis
    by (simp add: Atoi_def Itoa_def Let_def digits_value_digits)
qed

lemma getProcessByPort_single_pid:
  assumes "exec os ''lsof'' [''-ti'', '':'' @ Itoa port] = Inr (Itoa p @ newline)"
    and "0 \<le> p" and "p < 2 ^ 63"
  shows "getProcessByPort os port = p"
proof -
  from assms(2) have d: "digits p \<noteq> []" "list_all is_digit (digits p)"
    using digits_all_digit by simp_all
  with assms(2) have "TrimSpace (Itoa p @ newline) = Itoa p" "Itoa p \<noteq> []"
    by (simp_all add: Itoa_def TrimSpace_digits_newline)
  with assms show ?thesis
    by (simp add: getProcessByPort_def Let_def Atoi_Itoa)
qed

section \<open>Properties of the supervisor: Start\<close>

lemma startServer_occupied:
  assumes "isPortInUse (env (effects w)) (Port (server m))"
  shows "startServer env m w =
     (\<lparr>msg_Status = ServerRunning,
       msg_PID = getProcessByPort (env (effects w)) (Port (server m)), msg_Error = None\<rparr>, w)"
  using assms by (simp add: startServer_def)

lemma effects_log [simp]: "effects (log env level source message w) = effects w"
  by (simp add: log_def)

lemma effects_perform [simp]: "effects (perform e w) = effects w @ [e]"
  by (simp add: perform_def)

lemma spawned_startServer: "spawned (snd (startServer env m w)) \<le> spawned w + 1"
proof (cases "isPortInUse (env (effects w)) (Port (server m))")
  case True
  then show ?thesis by (simp add: startServer_occupied)
next
  case free: False
  show ?thesis
  proof (cases "exec (env (effects w)) ''make'' [''wasm'']")
    case (Inl err)
    with free show ?thesis by (simp add: startServer_def spawned_def Let_def)
  next
    case wasm: (Inr out1)
    show ?thesis
    proof (cases "exec (env (effects w @ [RunCommand ''make'' [''wasm'']])) ''make'' [''server'']")
      case (Inl err)
      with free wasm show ?thesis by (simp add: startServer_def spawned_def Let_def)
    next
      case srv: (Inr out2)
      let ?t = "effects w @ [RunCommand ''make'' [''wasm''], RunCommand ''make'' [''server'']]"
      show ?thesis
      proof (cases "stdoutPipe (env ?t)")
        case (Some err)
        with free wasm srv show ?thesis by (simp add: startServer_def spawned_def Let_def)
      next
        case out: None
        show ?thesis
        proof (cases "stderrPipe (env ?t)")
          case (Some err)
          with free wasm srv out show ?thesis by (simp add: startServer_def spawned_def Let_def)
        next
          case err: None
          show ?thesis
          proof (cases "startProcess (env ?t) ''./bin/server'' [''-dev'', ''-port'', Itoa (Port (server m))]")
            case (Inl e)
            with free wasm srv out err show ?thesis by (simp add: startServer_def spawned_def Let_def)
          next
            case (Inr pid)
            with free wasm srv out err show ?thesis by (simp add: startServer_def spawned_def Let_def)
          qed
        qed
      qed
    qed
  qed
qed

lemma startServer_ignores_currentServer:
  "fst (startServer env m (w\<lparr>currentServer := c\<rparr>)) = fst (startServer env m w) \<and>
   effects (snd (startServer env m (w\<lparr>currentServer := c\<rparr>))) = effects (snd (startServer env m w))"
proof (cases "isPortInUse (env (effects w)) (Port (server m))")
  case True
  then show ?thesis by (simp add: startServer_def)
next
  case free: False
  show ?thesis
  proof (cases "exec (env (effects w)) ''make'' [''wasm'']")
    case (Inl err)
    with free show ?thesis by (simp add: startServer_def Let_def)
  next
    case wasm: (Inr out1)
    show ?thesis
    proof (cases "exec (env (effects w @ [RunCommand ''make'' [''wasm'']])) ''make'' [''server'']")
      case (Inl err)
      with free wasm show ?thesis by (simp add: startServer_def Let_def)
    next
      case srv: (Inr out2)
      let ?t = "effects w @ [RunCommand ''make'' [''wasm''], RunCommand ''make'' [''server'']]"
      show ?thesis
      proof (cases "stdoutPipe (env ?t)")
        case (Some err)
        with free wasm srv show ?thesis by (simp add: startServer_def Let_def)
      next
        case out: None
        show ?thesis
        proof (cases "stderrPipe (env ?t)")
          case (Some err)
          with free wasm srv out show ?thesis by (simp add: startServer_def Let_def)
        next
          case err: None
          show ?thesis
          proof (cases "startProcess (env ?t) ''./bin/server'' [''-dev'', ''-port'', Itoa (Port (server m))]")
            case (Inl e)
            with free wasm srv out err show ?thesis by (simp add: startServer_def Let_def)
          next
            case (Inr pid)
            with free wasm srv out err show ?thesis by (simp add: startServer_def Let_def)
          qed
        qed
      qed
    qed
  qed
qed

lemma Update_Running_no_Start:
  "Status (server m) \<noteq> ServerStopped \<Longrightarrow> Update now (KeyMsg k) m \<noteq> Inr (m', StartServerCmd)"
  by (auto simp: Update_def go_rem_def split: if_splits sum.splits)

lemma start_calls_occupied:
  "\<forall>env \<in> set envs. isPortInUse (env (effects w)) (Port (server m)) \<Longrightarrow>
   start_calls envs m w = w"
  by (induction envs) (simp_all add: startServer_occupied)


lemma isPortInUse_os_occupied: "isPortInUse os_occupied 8080"
  by code_simp

lemma getProcessByPort_os_occupied: "getProcessByPort os_occupied 8080 = 4242"
  by code_simp

lemma effects_world_running:
  "effects world_running =
     [RunCommand ''make'' [''wasm''], RunCommand ''make'' [''server''],
      StartProcess ''./bin/server'' [''-dev'', ''-port'', ''8080''] 4242,
      GoRelay ''server'' LogInfo, GoRelay ''server'' LogError, SleepMs 500]"
  by code_simp

lemma currentServer_world_running:
  "currentServer world_running = Some \<lparr>cmd = Some \<lparr>Process = Some 4242\<rparr>\<rparr>"
  by code_simp

lemma env_supervised_running: "env_supervised (effects world_running) = os_occupied"
  by (simp add: effects_world_running env_supervised_def)

lemma Itoa_4242: "Itoa 4242 = ''4242''"
  by code_simp

text \<open>
  Claim C1, as amended. A \<open>Start\<close> called while \<open>lsof -i\<close> reports the port in use
  returns \<open>Running\<close> and leaves the world as it is: no build is run, no process is
  started, nothing is logged. The pid it carries is the one \<open>getProcessByPort\<close> reports:
  the owner's pid \<open>p\<close> when \<open>lsof -ti\<close> prints exactly \<open>p\<close>, and 0 when that lookup fails
  or its output is not one integer. So any sequence of such calls leaves the world
  unchanged; following one arbitrary \<open>Start\<close> from a world \<open>w0\<close>, the whole sequence has
  started at most one child. \<open>Start\<close> never consults the held instance: its message and
  its effects are the same whatever \<open>currentServer\<close> holds. And while the dashboard's
  status is not \<open>Stopped\<close>, no key makes \<open>Update\<close> issue the \<open>Start\<close> command.
\<close>

theorem Start_on_occupied_port:
  assumes "\<forall>env \<in> set envs. isPortInUse (env (effects w)) (Port (server m))"
  shows "(\<forall>env \<in> set envs. startServer env m w =
            (\<lparr>msg_Status = ServerRunning,
              msg_PID = getProcessByPort (env (effects w)) (Port (server m)),
              msg_Error = None\<rparr>, w)) \<and>
         start_calls envs m w = w \<and>
         (w = snd (startServer env0 m w0) \<longrightarrow>
            spawned (start_calls envs m w) \<le> spawned w0 + 1) \<and>
         (\<forall>env \<in> set envs.
            0 \<le> p \<and> p < 2 ^ 63 \<and>
            exec (env (effects w)) ''lsof'' [''-ti'', '':'' @ Itoa (Port (server m))] =
              Inr (Itoa p @ newline) \<longrightarrow>
            msg_PID (fst (startServer env m w)) = p) \<and>
         (\<forall>env \<in> set envs.
            exec (env (effects w)) ''lsof'' [''-ti'', '':'' @ Itoa (Port (server m))] = Inl e \<or>
            exec (env (effects w)) ''lsof'' [''-ti'', '':'' @ Itoa (Port (server m))] = Inr out \<and>
            Atoi (TrimSpace out) = Inl e \<longrightarrow>
            msg_PID (fst (startServer env m w)) = 0) \<and>
         fst (startServer env1 m (v\<lparr>currentServer := c\<rparr>)) = fst (startServer env1 m v) \<and>
         effects (snd (startServer env1 m (v\<lparr>currentServer := c\<rparr>))) =
           effects (snd (startServer env1 m v)) \<and>
         (Status (server dm) \<noteq> ServerStopped \<longrightarrow>
            Update now (KeyMsg k) dm \<noteq> Inr (dm', StartServerCmd))"
proof -
  have occupied: "startServer env m w =
            (\<lparr>msg_Status = ServerRunning,
              msg_PID = getProcessByPort (env (effects w)) (Port (server m)),
              msg_Error = None\<rparr>, w)" if "env \<in> set envs" for env
    using that assms by (intro startServer_occupied) blast
  have same: "start_calls envs m w = w"
    using assms by (rule start_calls_occupied)
  have one: "spawned (start_calls envs m w) \<le> spawned w0 + 1"
    if "w = snd (startServer env0 m w0)"
    using that same spawned_startServer [of env0 m w0] by simp
  have owner: "msg_PID (fst (startServer env m w)) = p"
    if "env \<in> set envs" "0 \<le> p \<and> p < 2 ^ 63 \<and>
        exec (env (effects w)) ''lsof'' [''-ti'', '':'' @ Itoa (Port (server m))] =
          Inr (Itoa p @ newline)" for env
    using that getProcessByPort_single_pid [of "env (effects w)" "Port (server m)" p]
    by (simp add: occupied)
  have zero: "msg_PID (fst (startServer env m w)) = 0"
    if "env \<in> set envs"
      "exec (env (effects w)) ''lsof'' [''-ti'', '':'' @ Itoa (Port (server m))] = Inl e \<or>
       exec (env (effects w)) ''lsof'' [''-ti'', '':'' @ Itoa (Port (server m))] = Inr out \<and>
       Atoi (TrimSpace out) = Inl e" for env
    using that by (auto simp: occupied getProcessByPort_def Let_def)
  have guard: "Update now (KeyMsg k) dm \<noteq> Inr (dm', StartServerCmd)"
    if "Status (server dm) \<noteq> ServerStopped"
    using that by (rule Update_Running_no_Start)
  show ?thesis
    using occupied same one owner zero guard startServer_ignores_currentServer [where env = env1 and m = m and w = v and c = c]
    by (intro conjI ballI impI) blast+
qed

theorem Start_on_occupied_port_witness:
  "isPortInUse (env_supervised (effects world_running)) (Port (server model8080)) \<and>
   isPortInUse (env_shared_port (effects world_running)) (Port (server model8080)) \<and>
   startServer env_supervised model8080 world_running =
     (\<lparr>msg_Status = ServerRunning, msg_PID = 4242, msg_Error = None\<rparr>, world_running) \<and>
   startServer env_shared_port model8080 world_running =
     (\<lparr>msg_Status = ServerRunning, msg_PID = 0, msg_Error = None\<rparr>, world_running) \<and>
   start_calls [env_supervised, env_shared_port] model8080 world_running = world_running \<and>
   world_running = snd (startServer env_supervised model8080 world0) \<and>
   spawned world0 = 0 \<and>
   spawned (start_calls [env_supervised, env_shared_port] model8080 world_running) = 1 \<and>
   Status (server model_running) \<noteq> ServerStopped \<and>
   Update 2000 (KeyMsg ''s'') model_running \<noteq> Inr (model_running, StartServerCmd)"
proof -
  let ?two = "''1234'' @ newline @ ''5678'' @ newline"
  have shared: "isPortInUse (env_shared_port t) 8080"
    "exec (env_shared_port t) ''lsof'' [''-ti'', '':'' @ Itoa 8080] = Inr ?two" for t
    by (simp_all add: env_shared_port_def isPortInUse_def os_shared_port_def os_port_free_def
        Itoa_8080)
  have a: "Atoi (TrimSpace ?two) = Inl (NumError (''1234'' @ newline @ ''5678'') ''invalid syntax'')"
    by code_simp
  have single: "exec (env_supervised (effects world_running)) ''lsof'' [''-ti'', '':'' @ Itoa 8080] =
      Inr (Itoa 4242 @ newline)"
    by (simp add: env_supervised_running os_occupied_def Itoa_8080 Itoa_4242)
  have occ: "\<forall>env \<in> set [env_supervised, env_shared_port].
      isPortInUse (env (effects world_running)) (Port (server model8080))"
    by (simp add: env_supervised_running Port_model8080 isPortInUse_os_occupied shared)
  have one: "spawned world_running = 1"
    by (simp add: spawned_def effects_world_running)
  have zero: "spawned world0 = 0"
    by (simp add: spawned_def world0_def)
  have running: "Status (server model_running) \<noteq> ServerStopped"
    by (simp add: model_running_def)
  have "getProcessByPort os_shared_port 8080 = 0"
    by code_simp
  then have none: "getProcessByPort (env_shared_port t) 8080 = 0" for t
    by (simp add: env_shared_port_def)
  show ?thesis
    using Start_on_occupied_port [OF occ, where ?env0.0 = env_supervised and ?w0.0 = world0
        and p = 4242 and e = "NumError (''1234'' @ newline @ ''5678'') ''invalid syntax''"
        and out = ?two and ?env1.0 = env_supervised and v = world0 and c = None
        and dm = model_running and now = 2000 and k = "''s''" and dm' = model_running]
      one zero running single shared a
    by (simp add: env_supervised_running Port_model8080 isPortInUse_os_occupied
        getProcessByPort_os_occupied none world_running_def [symmetric])
qed

text \<open>
  Claim C1 as stated fails twice. With two processes on the port, \<open>Start\<close> reports
  \<open>Running\<close> with pid 0, which is the pid of neither owner. And with a child held whose
  port is not in use, a second \<open>Start\<close> starts a second child.
\<close>

theorem Start_on_occupied_port_counterexample:
  "isPortInUse (env_shared_port (effects world0)) (Port (server model8080)) \<and>
   exec (env_shared_port (effects world0)) ''lsof'' [''-ti'', '':8080''] =
     Inr (''1234'' @ newline @ ''5678'' @ newline) \<and>
   startServer env_shared_port model8080 world0 =
     (\<lparr>msg_Status = ServerRunning, msg_PID = 0, msg_Error = None\<rparr>, world0) \<and>
   currentServer (snd (startServer env_unbound model8080 world0)) =
     Some \<lparr>cmd = Some \<lparr>Process = Some 4242\<rparr>\<rparr> \<and>
   fst (startServer env_unbound model8080 (snd (startServer env_unbound model8080 world0))) =
     \<lparr>msg_Status = ServerRunning, msg_PID = 4343, msg_Error = None\<rparr> \<and>
   spawned (start_calls [env_unbound, env_unbound] model8080 world0) = 2"
  by code_simp

section \<open>Properties of the supervisor: a failing build\<close>

lemma logger_log [simp]:
  "logger (log env level source message w) =
     Log (clock (env (effects w))) level source message (logger w)"
  by (simp add: log_def)

lemma logger_perform [simp]: "logger (perform e w) = logger w"
  by (simp add: perform_def)

lemma currentServer_log [simp]: "currentServer (log env level source message w) = currentServer w"
  by (simp add: log_def)

lemma currentServer_perform [simp]: "currentServer (perform e w) = currentServer w"
  by (simp add: perform_def)

lemma last_entries_Log:
  "entries (Log now level source message l) \<noteq> [] \<and>
   last (entries (Log now level source message l)) = mk_entry (now, level, source, message)"
proof (cases "500 \<le> length (entries l)")
  case True
  then have "entries l \<noteq> []" by auto
  with True show ?thesis by (simp add: entries_Log)
next
  case False
  then show ?thesis by (simp add: entries_Log)
qed

lemma startServer_build_fails:
  assumes "\<not> isPortInUse (env (effects w)) (Port (server m))"
    and "exec (env (effects w)) ''make'' [''wasm''] = Inl err"
  shows "startServer env m w =
     (failed (Errorf ''failed to build WASM: '' err),
      log env LogError ''cli'' (''Failed to build WASM: '' @ error_string err)
        (perform CtxCancel (perform (RunCommand ''make'' [''wasm''])
           (log env LogSystem ''cli'' ''Building WASM...'' w))))"
  using assms by (simp add: startServer_def Let_def)

text \<open>
  Claim C4, as amended. When \<open>Start\<close> finds the port free and the first build step
  fails with \<open>err\<close>, it returns \<open>Stopped\<close> with the error
  \<open>failed to build WASM: err\<close>; the build and the cancellation of the context are its only
  effects, so no process is started and \<open>currentServer\<close> is as before. It writes exactly
  two entries to the log sink, both with source \<open>cli\<close>: first \<open>Building WASM...\<close> with
  severity \<open>LogSystem\<close>, then the record of the failure, \<open>Failed to build WASM: err\<close>, with
  severity \<open>LogError\<close>, which is therefore the newest entry of the sink.
\<close>

theorem Start_first_build_fails:
  assumes "\<not> isPortInUse (env (effects w)) (Port (server m))"
    and "exec (env (effects w)) ''make'' [''wasm''] = Inl err"
  shows "fst (startServer env m w) =
           \<lparr>msg_Status = ServerStopped, msg_PID = 0,
            msg_Error = Some (Errorf ''failed to build WASM: '' err)\<rparr> \<and>
         effects (snd (startServer env m w)) =
           effects w @ [RunCommand ''make'' [''wasm''], CtxCancel] \<and>
         spawned (snd (startServer env m w)) = spawned w \<and>
         currentServer (snd (startServer env m w)) = currentServer w \<and>
         Level (last (entries (logger (snd (startServer env m w))))) = LogError \<and>
         Source (last (entries (logger (snd (startServer env m w))))) = ''cli'' \<and>
         Message (last (entries (logger (snd (startServer env m w))))) =
           TrimSpace (''Failed to build WASM: '' @ error_string err) \<and>
         last (entries (logger (snd (startServer env m w))))
           \<in> set (entries (logger (snd (startServer env m w)))) \<and>
         logger (snd (startServer env m w)) =
           Log (clock (env (effects w @ [RunCommand ''make'' [''wasm''], CtxCancel])))
             LogError ''cli'' (''Failed to build WASM: '' @ error_string err)
             (Log (clock (env (effects w))) LogSystem ''cli'' ''Building WASM...'' (logger w))"
proof -
  let ?w = "snd (startServer env m w)"
  let ?t = "effects w @ [RunCommand ''make'' [''wasm''], CtxCancel]"
  let ?e = "mk_entry (clock (env ?t), LogError, ''cli'',
              ''Failed to build WASM: '' @ error_string err)"
  have w: "?w = log env LogError ''cli'' (''Failed to build WASM: '' @ error_string err)
        (perform CtxCancel (perform (RunCommand ''make'' [''wasm''])
           (log env LogSystem ''cli'' ''Building WASM...'' w)))"
    and f: "fst (startServer env m w) = failed (Errorf ''failed to build WASM: '' err)"
    using startServer_build_fails [of env w m err] assms by simp_all
  have e: "effects ?w = ?t"
    unfolding w by simp
  have c: "currentServer ?w = currentServer w"
    unfolding w by simp
  have lg: "logger ?w = Log (clock (env ?t)) LogError ''cli''
          (''Failed to build WASM: '' @ error_string err)
          (Log (clock (env (effects w))) LogSystem ''cli'' ''Building WASM...'' (logger w))"
    unfolding w by simp
  then have ne: "entries (logger ?w) \<noteq> []" and la: "last (entries (logger ?w)) = ?e"
    using last_entries_Log by simp_all
  have s: "spawned ?w = spawned w"
    unfolding spawned_def e by simp
  have 1: "Level ?e = LogError" and 2: "Source ?e = ''cli''"
    and 3: "Message ?e = TrimSpace (''Failed to build WASM: '' @ error_string err)"
    unfolding mk_entry_def by simp_all
  have 4: "last (entries (logger ?w)) \<in> set (entries (logger ?w))"
    using ne by (rule last_in_set)
  show ?thesis
    using f e s c 1 2 3 4 lg unfolding la failed_def by (intro conjI)
qed


theorem Start_first_build_fails_witness:
  "\<not> isPortInUse (env_build_fails (effects world0)) (Port (server model8080)) \<and>
   exec (env_build_fails (effects world0)) ''make'' [''wasm''] = Inl (OSError ''exit status 2'') \<and>
   fst (startServer env_build_fails model8080 world0) =
     \<lparr>msg_Status = ServerStopped, msg_PID = 0,
      msg_Error = Some (Errorf ''failed to build WASM: '' (OSError ''exit status 2''))\<rparr> \<and>
   effects (snd (startServer env_build_fails model8080 world0)) =
     [RunCommand ''make'' [''wasm''], CtxCancel] \<and>
   Level (last (entries (logger (snd (startServer env_build_fails model8080 world0))))) = LogError \<and>
   Message (last (entries (logger (snd (startServer env_build_fails model8080 world0))))) =
     ''Failed to build WASM: exit status 2'' \<and>
   logger (snd (startServer env_build_fails model8080 world0)) =
     Log 1000 LogError ''cli'' ''Failed to build WASM: exit status 2''
       (Log 1000 LogSystem ''cli'' ''Building WASM...'' globalLogger)"
proof -
  have h1: "\<not> isPortInUse (env_build_fails (effects world0)) (Port (server model8080))"
    by code_simp
  have h2: "exec (env_build_fails (effects world0)) ''make'' [''wasm''] =
      Inl (OSError ''exit status 2'')"
    by (simp add: env_build_fails_def os_build_fails_def os_port_free_def)
  have t: "TrimSpace (''Failed to build WASM: '' @ error_string (OSError ''exit status 2'')) =
      ''Failed to build WASM: exit status 2''"
    by code_simp
  have e: "effects world0 = []" "logger world0 = globalLogger"
    by (simp_all add: world0_def)
  have c: "clock (env_build_fails tr) = 1000" for tr
    by (simp add: env_build_fails_def os_build_fails_def os_port_free_def)
  have m: "''Failed to build WASM: '' @ error_string (OSError ''exit status 2'') =
      ''Failed to build WASM: exit status 2''"
    by simp
  have en: "entries (Log 1000 LogError ''cli'' ''Failed to build WASM: exit status 2''
        (Log 1000 LogSystem ''cli'' ''Building WASM...'' globalLogger)) =
      [\<lparr>Timestamp = 1000, Level = LogSystem, Source = ''cli'', Message = ''Building WASM...''\<rparr>,
       \<lparr>Timestamp = 1000, Level = LogError, Source = ''cli'',
        Message = ''Failed to build WASM: exit status 2''\<rparr>]"
    by code_simp
  show ?thesis
    using Start_first_build_fails [of env_build_fails world0 model8080 "OSError ''exit status 2''"] h1 h2
    unfolding t e c m by (simp add: en)
qed

text \<open>
  Claim C4 as stated fails: after the failed build the only entry of severity
  \<open>LogSystem\<close> is the announcement \<open>Building WASM...\<close>, written before the build ran; the
  entry that records the failure has severity \<open>LogError\<close>.
\<close>

theorem Start_first_build_fails_counterexample:
  "fst (startServer env_build_fails model8080 world0) =
     \<lparr>msg_Status = ServerStopped, msg_PID = 0,
      msg_Error = Some (Errorf ''failed to build WASM: '' (OSError ''exit status 2''))\<rparr> \<and>
   map Level (entries (logger (snd (startServer env_build_fails model8080 world0)))) =
     [LogSystem, LogError] \<and>
   map Message (entries (logger (snd (startServer env_build_fails model8080 world0)))) =
     [''Building WASM...'', ''Failed to build WASM: exit status 2''] \<and>
   map Message (system_entries (snd (startServer env_build_fails model8080 world0))) =
     [''Building WASM...'']"
  by code_simp

section \<open>Properties of the supervisor: Stop\<close>

lemma stopServer_msg:
  "fst (stopServer env m w) = \<lparr>msg_Status = ServerStopped, msg_PID = 0, msg_Error = None\<rparr>"
  by (simp add: stopServer_def Let_def)

lemma effects_cancel:
  "effects (cancel \<lparr>cmd = Some \<lparr>Process = Some pid\<rparr>\<rparr> w) =
     effects w @ [CtxCancel, SendSignal pid SIGKILL]"
  by (simp add: cancel_def)

lemma stopServer_held_effects:
  assumes "currentServer w = Some \<lparr>cmd = Some \<lparr>Process = Some pid\<rparr>\<rparr>"
  shows "effects (snd (stopServer env m w)) =
           effects w @ [CtxCancel, SendSignal pid SIGKILL] @
           (case getpgid (env (effects w @ [CtxCancel, SendSignal pid SIGKILL])) pid of
              Inl err \<Rightarrow> [] | Inr pgid \<Rightarrow> [SendSignal (- pgid) SIGTERM]) @ [GoWait pid]"
    and "currentServer (snd (stopServer env m w)) = None"
  using assms by (simp_all add: stopServer_def Let_def cancel_def split: sum.split)

lemma stopServer_not_held_effects:
  assumes "currentServer w = None"
  shows "effects (snd (stopServer env m w)) =
           effects w @
           (if getProcessByPort (env (effects w)) (Port (server m)) > 0
            then SendSignal (getProcessByPort (env (effects w)) (Port (server m))) SIGTERM #
                 (case kill (env (effects w)) (getProcessByPort (env (effects w)) (Port (server m)))
                         SIGTERM of
                    None \<Rightarrow> []
                  | Some err \<Rightarrow>
                      [SendSignal (getProcessByPort (env (effects w)) (Port (server m))) SIGKILL])
            else [])"
    and "currentServer (snd (stopServer env m w)) = None"
  using assms by (simp_all add: stopServer_def Let_def split: option.split)

text \<open>
  Claim C2, as amended. \<open>Stop\<close> always returns \<open>Stopped\<close> with pid 0 and no error, and
  leaves no instance held. When an instance with process \<open>pid\<close> is held in the world
  \<open>w\<close>, its effects are exactly these: the context is cancelled, upon which \<open>os/exec\<close>
  sends \<open>SIGKILL\<close> to the child itself; \<open>SIGTERM\<close> is sent to the process group when
  \<open>Getpgid\<close> gives one, and no signal goes to the group when it fails; and the wait for
  the exit is left to a goroutine, so that \<open>Stop\<close> does not wait for it. When no instance
  is held in the world \<open>v\<close>, the pid that \<open>getProcessByPort\<close> reports, if positive, is
  sent \<open>SIGTERM\<close>, and \<open>SIGKILL\<close> too when sending \<open>SIGTERM\<close> failed; otherwise nothing is
  sent.
\<close>

theorem Stop_terminates_and_reports_Stopped:
  "fst (stopServer env m w) = \<lparr>msg_Status = ServerStopped, msg_PID = 0, msg_Error = None\<rparr> \<and>
   (currentServer w = Some \<lparr>cmd = Some \<lparr>Process = Some pid\<rparr>\<rparr> \<longrightarrow>
      currentServer (snd (stopServer env m w)) = None \<and>
      effects (snd (stopServer env m w)) =
        effects w @ [CtxCancel, SendSignal pid SIGKILL] @
        (case getpgid (env (effects w @ [CtxCancel, SendSignal pid SIGKILL])) pid of
           Inl err \<Rightarrow> [] | Inr pgid \<Rightarrow> [SendSignal (- pgid) SIGTERM]) @ [GoWait pid]) \<and>
   (currentServer v = None \<longrightarrow>
      currentServer (snd (stopServer env m v)) = None \<and>
      effects (snd (stopServer env m v)) =
        effects v @
        (if getProcessByPort (env (effects v)) (Port (server m)) > 0
         then SendSignal (getProcessByPort (env (effects v)) (Port (server m))) SIGTERM #
              (case kill (env (effects v)) (getProcessByPort (env (effects v)) (Port (server m)))
                      SIGTERM of
                 None \<Rightarrow> []
               | Some err \<Rightarrow>
                   [SendSignal (getProcessByPort (env (effects v)) (Port (server m))) SIGKILL])
         else []))"
  using stopServer_msg [of env m w] stopServer_held_effects [of w pid env m]
    stopServer_not_held_effects [of v env m]
  by blast

lemma getProcessByPort_os_external: "getProcessByPort os_external 8080 = 4242"
  by code_simp

theorem Stop_terminates_and_reports_Stopped_witness:
  "currentServer world_running = Some \<lparr>cmd = Some \<lparr>Process = Some 4242\<rparr>\<rparr> \<and>
   currentServer (snd (stopServer env_external model8080 world_running)) = None \<and>
   effects (snd (stopServer env_external model8080 world_running)) =
     effects world_running @
     [CtxCancel, SendSignal 4242 SIGKILL, SendSignal (- 4242) SIGTERM, GoWait 4242] \<and>
   currentServer world0 = None \<and>
   effects (snd (stopServer env_external model8080 world0)) =
     [SendSignal 4242 SIGTERM, SendSignal 4242 SIGKILL] \<and>
   fst (stopServer env_external model8080 world_running) =
     \<lparr>msg_Status = ServerStopped, msg_PID = 0, msg_Error = None\<rparr>"
proof -
  have h1: "currentServer world_running = Some \<lparr>cmd = Some \<lparr>Process = Some 4242\<rparr>\<rparr>"
    by (rule currentServer_world_running)
  have h2: "currentServer world0 = None" "effects world0 = []"
    by (simp_all add: world0_def)
  have g: "getProcessByPort (env_external t) (Port (server model8080)) = 4242" for t
    by (simp add: env_external_def Port_model8080 getProcessByPort_os_external)
  have k: "kill (env_external t) 4242 SIGTERM = Some (OSError ''operation not permitted'')" for t
    by (simp add: env_external_def os_external_def)
  have pg: "getpgid (env_external t) 4242 = Inr 4242" for t
    by (simp add: env_external_def os_external_def os_occupied_def os_port_free_def)
  show ?thesis
    using Stop_terminates_and_reports_Stopped [of env_external model8080 world_running 4242 world0]
      h1 h2
    by (simp add: g k pg)
qed

text \<open>
  Claim C2 as stated fails: with an instance held and \<open>Getpgid\<close> failing, \<open>Stop\<close>
  sends no signal to the process group, graceful or not; the one signal of the run is
  the \<open>SIGKILL\<close> that the cancelled context brings upon the child. \<open>Stop\<close> still reports
  \<open>Stopped\<close>.
\<close>

theorem Stop_without_signal_counterexample:
  "currentServer world_running = Some \<lparr>cmd = Some \<lparr>Process = Some 4242\<rparr>\<rparr> \<and>
   fst (stopServer env_no_pgid model8080 world_running) =
     \<lparr>msg_Status = ServerStopped, msg_PID = 0, msg_Error = None\<rparr> \<and>
   effects (snd (stopServer env_no_pgid model8080 world_running)) =
     effects world_running @ [CtxCancel, SendSignal 4242 SIGKILL, GoWait 4242] \<and>
   signals (snd (stopServer env_no_pgid model8080 world_running)) = [SendSignal 4242 SIGKILL]"
  by code_simp

section \<open>Properties of the supervisor: Restart\<close>

lemma startServer_cases:
  "(isPortInUse (env (effects w)) (Port (server m)) \<and>
    startServer env m w =
      (\<lparr>msg_Status = ServerRunning,
        msg_PID = getProcessByPort (env (effects w)) (Port (server m)), msg_Error = None\<rparr>, w)) \<or>
   (\<not> isPortInUse (env (effects w)) (Port (server m)) \<and>
    msg_Status (fst (startServer env m w)) = ServerStopped \<and>
    msg_Error (fst (startServer env m w)) \<noteq> None \<and>
    spawned (snd (startServer env m w)) = spawned w \<and>
    (\<exists>post. effects (snd (startServer env m w)) = effects w @ post) \<and>
    currentServer (snd (startServer env m w)) = currentServer w) \<or>
   (\<not> isPortInUse (env (effects w)) (Port (server m)) \<and>
    (\<exists>pid. fst (startServer env m w) =
             \<lparr>msg_Status = ServerRunning, msg_PID = pid, msg_Error = None\<rparr> \<and>
           effects (snd (startServer env m w)) =
             effects w @
             [RunCommand ''make'' [''wasm''], RunCommand ''make'' [''server''],
              StartProcess ''./bin/server'' [''-dev'', ''-port'', Itoa (Port (server m))] pid,
              GoRelay ''server'' LogInfo, GoRelay ''server'' LogError, SleepMs 500] \<and>
           currentServer (snd (startServer env m w)) =
             Some \<lparr>cmd = Some \<lparr>Process = Some pid\<rparr>\<rparr>))"
proof (cases "isPortInUse (env (effects w)) (Port (server m))")
  case True
  then show ?thesis by (simp add: startServer_occupied)
next
  case free: False
  show ?thesis
  proof (cases "exec (env (effects w)) ''make'' [''wasm'']")
    case (Inl err)
    with free show ?thesis by (simp add: startServer_def spawned_def Let_def failed_def)
  next
    case wasm: (Inr out1)
    show ?thesis
    proof (cases "exec (env (effects w @ [RunCommand ''make'' [''wasm'']])) ''make'' [''server'']")
      case (Inl err)
      with free wasm show ?thesis by (simp add: startServer_def spawned_def Let_def failed_def)
    next
      case srv: (Inr out2)
      let ?t = "effects w @ [RunCommand ''make'' [''wasm''], RunCommand ''make'' [''server'']]"
      show ?thesis
      proof (cases "stdoutPipe (env ?t)")
        case (Some err)
        with free wasm srv show ?thesis by (simp add: startServer_def spawned_def Let_def failed_def)
      next
        case out: None
        show ?thesis
        proof (cases "stderrPipe (env ?t)")
          case (Some err)
          with free wasm srv out show ?thesis by (simp add: startServer_def spawned_def Let_def failed_def)
        next
          case err: None
          show ?thesis
          proof (cases "startProcess (env ?t) ''./bin/server'' [''-dev'', ''-port'', Itoa (Port (server m))]")
            case (Inl e)
            with free wasm srv out err show ?thesis by (simp add: startServer_def spawned_def Let_def failed_def)
          next
            case (Inr pid)
            with free wasm srv out err show ?thesis by (simp add: startServer_def Let_def)
          qed
        qed
      qed
    qed
  qed
qed

lemma stopServer_log_effects:
  "effects (snd (stopServer env m (log env level source message w))) =
   effects (snd (stopServer env m w))"
  by (simp add: stopServer_def Let_def cancel_def split: option.split sum.split)

lemma stopServer_clears: "currentServer (snd (stopServer env m w)) = None"
  by (simp add: stopServer_def Let_def cancel_def split: option.split sum.split)

lemma stopServer_spawned: "spawned (snd (stopServer env m w)) = spawned w"
  by (simp add: stopServer_def Let_def cancel_def spawned_def split: option.split sum.split)

lemma restartServer_unfold:
  "restartServer env m w =
     startServer env m
       (log env LogSystem ''cli'' ''Starting server again...''
         (perform (SleepMs 2000)
           (log env LogSystem ''cli'' ''Waiting for cleanup...''
             (snd (stopServer env m (log env LogSystem ''cli'' ''Restarting server...'' w))))))"
  by (simp add: restartServer_def Let_def)


text \<open>
  Claim C6, as amended. \<open>Restart\<close> delivers one message, the result of the \<open>Start\<close>
  that follows the cooldown, never the \<open>Stopped\<close> message of its \<open>Stop\<close> phase. The
  effects of the \<open>Stop\<close> phase come first, then the cooldown of 2000 ms, then those of
  \<open>Start\<close>. When the message says \<open>Running\<close>, its pid is either the one
  \<open>getProcessByPort\<close> finds after the cooldown on a port in use (nothing is started, no
  instance is held), or that of a child started after the cooldown, now the held
  instance. Otherwise the message says \<open>Stopped\<close> and carries an error, and no child
  was started.
\<close>

theorem Restart_delivers_Start_result:
  "fst (restartServer env m w) \<noteq> \<lparr>msg_Status = ServerStopped, msg_PID = 0, msg_Error = None\<rparr> \<and>
   (\<exists>post. effects (snd (restartServer env m w)) =
            effects (snd (stopServer env m w)) @ [SleepMs 2000] @ post) \<and>
   (msg_Status (fst (restartServer env m w)) = ServerRunning \<longrightarrow>
      (isPortInUse (env (effects (snd (stopServer env m w)) @ [SleepMs 2000])) (Port (server m)) \<and>
       msg_PID (fst (restartServer env m w)) =
         getProcessByPort (env (effects (snd (stopServer env m w)) @ [SleepMs 2000]))
           (Port (server m)) \<and>
       effects (snd (restartServer env m w)) =
         effects (snd (stopServer env m w)) @ [SleepMs 2000] \<and>
       currentServer (snd (restartServer env m w)) = None)
      \<or>
      (\<not> isPortInUse (env (effects (snd (stopServer env m w)) @ [SleepMs 2000]))
           (Port (server m)) \<and>
       StartProcess ''./bin/server'' [''-dev'', ''-port'', Itoa (Port (server m))]
           (msg_PID (fst (restartServer env m w)))
         \<in> set (effects (snd (restartServer env m w))) \<and>
       currentServer (snd (restartServer env m w)) =
         Some \<lparr>cmd = Some \<lparr>Process = Some (msg_PID (fst (restartServer env m w)))\<rparr>\<rparr>)) \<and>
   (msg_Status (fst (restartServer env m w)) \<noteq> ServerRunning \<longrightarrow>
      msg_Status (fst (restartServer env m w)) = ServerStopped \<and>
      msg_Error (fst (restartServer env m w)) \<noteq> None \<and>
      spawned (snd (restartServer env m w)) = spawned w)"
proof -
  let ?ws = "snd (stopServer env m (log env LogSystem ''cli'' ''Restarting server...'' w))"
  let ?wc = "log env LogSystem ''cli'' ''Starting server again...''
               (perform (SleepMs 2000) (log env LogSystem ''cli'' ''Waiting for cleanup...'' ?ws))"
  let ?T = "effects (snd (stopServer env m w)) @ [SleepMs 2000]"
  have r: "restartServer env m w = startServer env m ?wc"
    by (rule restartServer_unfold)
  have T: "effects ?wc = ?T"
    by (simp add: stopServer_log_effects)
  have c: "currentServer ?wc = None"
    by (simp add: stopServer_clears)
  have s: "spawned ?wc = spawned w"
    using stopServer_spawned [of env m w] by (simp add: spawned_def stopServer_log_effects)
  let ?r = "restartServer env m w"
  let ?port = "Port (server m)"
  consider
    (external) "isPortInUse (env ?T) ?port"
      "?r = (\<lparr>msg_Status = ServerRunning, msg_PID = getProcessByPort (env ?T) ?port,
             msg_Error = None\<rparr>, ?wc)"
  | (failure) "\<not> isPortInUse (env ?T) ?port" "msg_Status (fst ?r) = ServerStopped"
      "msg_Error (fst ?r) \<noteq> None" "spawned (snd ?r) = spawned w"
      "\<exists>post. effects (snd ?r) = ?T @ post"
  | (started) pid where "\<not> isPortInUse (env ?T) ?port"
      "fst ?r = \<lparr>msg_Status = ServerRunning, msg_PID = pid, msg_Error = None\<rparr>"
      "effects (snd ?r) = ?T @
         [RunCommand ''make'' [''wasm''], RunCommand ''make'' [''server''],
          StartProcess ''./bin/server'' [''-dev'', ''-port'', Itoa ?port] pid,
          GoRelay ''server'' LogInfo, GoRelay ''server'' LogError, SleepMs 500]"
      "currentServer (snd ?r) = Some \<lparr>cmd = Some \<lparr>Process = Some pid\<rparr>\<rparr>"
    using startServer_cases [of env ?wc m] unfolding r [symmetric] T c s by blast
  then show ?thesis
  proof cases
    case external
    have "effects (snd ?r) = ?T" "currentServer (snd ?r) = None"
      unfolding external(2) snd_conv by (fact T, fact c)
    with external show ?thesis by simp
  next
    case failure
    from failure(5) obtain post where "effects (snd ?r) = ?T @ post" ..
    then have "\<exists>post. effects (snd ?r) = effects (snd (stopServer env m w)) @ [SleepMs 2000] @ post"
      by simp
    with failure(2,3,4) show ?thesis by auto
  next
    case started
    have "\<exists>post. effects (snd ?r) = effects (snd (stopServer env m w)) @ [SleepMs 2000] @ post"
      unfolding started(3) by simp
    moreover have "StartProcess ''./bin/server'' [''-dev'', ''-port'', Itoa ?port] pid
        \<in> set (effects (snd ?r))"
      unfolding started(3) by simp
    ultimately show ?thesis using started(1,2,4) by simp
  qed
qed


theorem Restart_delivers_Start_result_witness:
  "msg_Status (fst (restartServer env_restart model8080 world_running)) = ServerRunning \<and>
   msg_PID (fst (restartServer env_restart model8080 world_running)) = 4343 \<and>
   StartProcess ''./bin/server'' [''-dev'', ''-port'', ''8080''] 4343
     \<in> set (effects (snd (restartServer env_restart model8080 world_running))) \<and>
   currentServer (snd (restartServer env_restart model8080 world_running)) =
     Some \<lparr>cmd = Some \<lparr>Process = Some 4343\<rparr>\<rparr> \<and>
   msg_Status (fst (restartServer env_build_fails model8080 world_running)) = ServerStopped \<and>
   msg_Error (fst (restartServer env_build_fails model8080 world_running)) \<noteq> None \<and>
   spawned (snd (restartServer env_build_fails model8080 world_running)) = 1"
proof -
  have h1: "msg_Status (fst (restartServer env_restart model8080 world_running)) = ServerRunning"
    and h2: "msg_PID (fst (restartServer env_restart model8080 world_running)) = 4343"
    by code_simp+
  have h3: "\<not> isPortInUse
      (env_restart (effects (snd (stopServer env_restart model8080 world_running)) @ [SleepMs 2000]))
      (Port (server model8080))"
    by code_simp
  have h4: "msg_Status (fst (restartServer env_build_fails model8080 world_running)) \<noteq> ServerRunning"
    by code_simp
  have one: "spawned world_running = 1"
    by (simp add: spawned_def effects_world_running)
  show ?thesis
    using Restart_delivers_Start_result [of env_restart model8080 world_running]
      Restart_delivers_Start_result [of env_build_fails model8080 world_running]
      h1 h2 h3 h4 one
    by (simp add: Port_model8080 Itoa_8080)
qed

text \<open>
  Claim C6 as stated fails: a restart of the running child delivers the single message
  \<open>Running\<close> with the new pid; the \<open>Stopped\<close> of its \<open>Stop\<close> phase is dropped.
\<close>

theorem Restart_hides_Stopped_counterexample:
  "delivered (restartServer env_restart model8080 world_running) =
     [\<lparr>msg_Status = ServerRunning, msg_PID = 4343, msg_Error = None\<rparr>] \<and>
   effects (snd (restartServer env_restart model8080 world_running)) =
     effects world_running @
     [CtxCancel, SendSignal 4242 SIGKILL, SendSignal (- 4242) SIGTERM, GoWait 4242,
      SleepMs 2000,
      RunCommand ''make'' [''wasm''], RunCommand ''make'' [''server''],
      StartProcess ''./bin/server'' [''-dev'', ''-port'', ''8080''] 4343,
      GoRelay ''server'' LogInfo, GoRelay ''server'' LogError, SleepMs 500]"
  by code_simp

section \<open>Properties of the dashboard controller\<close>

lemma Update_keyMap: "Update now msg m = Inr (m', c) \<Longrightarrow> keyMap m' = keyMap m"
  by (cases msg)
     (auto simp: Update_def Let_def go_rem_def split: if_splits option.splits sum.splits)

lemma Update_keeps_error:
  assumes "Update now msg m = Inr (m', c)"
    and "\<not> is_StatusMsg msg" and "\<not> is_clear_error (keyMap m) msg"
  shows "showError m' = showError m \<and> lastError m' = lastError m"
  using assms
  by (cases msg)
     (auto simp: Update_def Let_def go_rem_def is_clear_error_def split: if_splits sum.splits)

lemma Update_keeps_width:
  assumes "Update now msg m = Inr (m', c)" and "\<not> is_zero_width msg" and "width m \<noteq> 0"
  shows "width m' \<noteq> 0"
  using assms
  by (cases msg)
     (auto simp: Update_def Let_def go_rem_def split: if_splits option.splits sum.splits)

lemma Update_status_error:
  "msg_Error s = Some err \<Longrightarrow>
   \<exists>m'. Update now (StatusMsg s) m = Inr (m', NoCmd) \<and> showError m' \<and>
        lastError m' = error_string err \<and> width m' = width m"
  by (simp add: Update_def Let_def)

lemma Update_status_ok:
  "msg_Error s = None \<Longrightarrow>
   \<exists>m'. Update now (StatusMsg s) m = Inr (m', NoCmd) \<and> \<not> showError m' \<and>
        lastError m' = lastError m"
  by (simp add: Update_def Let_def)

lemma Update_total:
  "tabs m \<noteq> [] \<Longrightarrow> \<exists>m' c. Update now msg m = Inr (m', c) \<and> tabs m' = tabs m"
  by (cases msg) (auto simp: Update_def Let_def go_rem_def split: option.splits)

lemma run_msgs_keeps_error:
  "tabs m \<noteq> [] \<Longrightarrow>
   \<forall>x \<in> set ms. \<not> is_StatusMsg (snd x) \<and> \<not> is_clear_error (keyMap m) (snd x) \<Longrightarrow>
   \<exists>m'. run_msgs ms m = Inr m' \<and> showError m' = showError m \<and> lastError m' = lastError m \<and>
        (width m \<noteq> 0 \<and> (\<forall>x \<in> set ms. \<not> is_zero_width (snd x)) \<longrightarrow> width m' \<noteq> 0)"
proof (induction ms arbitrary: m)
  case Nil
  then show ?case by simp
next
  case (Cons x ms)
  obtain now msg where x: "x = (now, msg)" by (cases x) auto
  from Cons.prems(1) obtain m1 c where u: "Update now msg m = Inr (m1, c)"
    and t: "tabs m1 = tabs m"
    using Update_total [of m now msg] by blast
  from Cons.prems(2) have q: "\<not> is_StatusMsg msg" "\<not> is_clear_error (keyMap m) msg"
    by (simp_all add: x)
  have k: "keyMap m1 = keyMap m" using u by (rule Update_keyMap)
  have e: "showError m1 = showError m \<and> lastError m1 = lastError m"
    using u q by (rule Update_keeps_error)
  have w: "width m1 \<noteq> 0" if "\<not> is_zero_width msg" "width m \<noteq> 0"
    using u that by (rule Update_keeps_width)
  have "\<exists>m'. run_msgs ms m1 = Inr m' \<and> showError m' = showError m1 \<and>
      lastError m' = lastError m1 \<and>
      (width m1 \<noteq> 0 \<and> (\<forall>x \<in> set ms. \<not> is_zero_width (snd x)) \<longrightarrow> width m' \<noteq> 0)"
    using Cons.prems by (intro Cons.IH) (simp_all add: k t)
  then show ?case
    using u e w by (auto simp: x)
qed

lemma Update_clear:
  "is_clear_error (keyMap m) msg \<Longrightarrow>
   \<exists>m'. Update now msg m = Inr (m', NoCmd) \<and> \<not> showError m' \<and> lastError m' = []"
  by (cases msg) (simp_all add: is_clear_error_def Update_def)

text \<open>
  Claim C5, as amended. A status message with an error puts the text of the error in
  the error slot and sets \<open>showError\<close>; the view shows it unless the width of the window
  is 0. The slot stays as it is through every sequence of messages that are neither
  status messages nor the clear-error key (and such a sequence never panics on a model
  with tabs); when moreover the width is not 0 and no message of the sequence is a
  window size of width 0, the view goes on showing the error. A status message without
  an error hides it, keeping the text; the clear-error key hides it and erases the
  text; a window size of width 0 takes it out of the view and leaves the slot as it is.
\<close>

theorem error_shown_until_cleared_or_status:
  "(msg_Error s = Some err \<longrightarrow>
      (\<exists>m'. Update now (StatusMsg s) m = Inr (m', NoCmd) \<and>
            showError m' \<and> lastError m' = error_string err \<and>
            shownError m' = (if width m = 0 then None else Some (error_string err)))) \<and>
   (tabs m \<noteq> [] \<and>
    (\<forall>x \<in> set ms. \<not> is_StatusMsg (snd x) \<and> \<not> is_clear_error (keyMap m) (snd x)) \<longrightarrow>
      (\<exists>m'. run_msgs ms m = Inr m' \<and> showError m' = showError m \<and>
            lastError m' = lastError m \<and>
            (width m \<noteq> 0 \<and> (\<forall>x \<in> set ms. \<not> is_zero_width (snd x)) \<longrightarrow>
               shownError m' = shownError m))) \<and>
   (msg_Error s' = None \<longrightarrow>
      (\<exists>m'. Update now (StatusMsg s') m = Inr (m', NoCmd) \<and>
            shownError m' = None \<and> \<not> showError m' \<and> lastError m' = lastError m)) \<and>
   (is_clear_error (keyMap m) msg \<longrightarrow>
      (\<exists>m'. Update now msg m = Inr (m', NoCmd) \<and> shownError m' = None \<and>
            \<not> showError m' \<and> lastError m' = [])) \<and>
   (\<exists>m'. Update now (WindowSizeMsg 0 h) m = Inr (m', NoCmd) \<and> shownError m' = None \<and>
         showError m' = showError m \<and> lastError m' = lastError m)"
proof (intro conjI impI)
  assume "msg_Error s = Some err"
  then obtain m' where u: "Update now (StatusMsg s) m = Inr (m', NoCmd)" "showError m'"
      "lastError m' = error_string err" "width m' = width m"
    using Update_status_error [of s err now m] by blast
  then have "shownError m' = (if width m = 0 then None else Some (error_string err))"
    by (simp add: shownError_def)
  with u show "\<exists>m'. Update now (StatusMsg s) m = Inr (m', NoCmd) \<and>
      showError m' \<and> lastError m' = error_string err \<and>
      shownError m' = (if width m = 0 then None else Some (error_string err))"
    by (intro exI [of _ m'] conjI)
next
  assume "tabs m \<noteq> [] \<and>
    (\<forall>x \<in> set ms. \<not> is_StatusMsg (snd x) \<and> \<not> is_clear_error (keyMap m) (snd x))"
  then obtain m' where r: "run_msgs ms m = Inr m'" "showError m' = showError m"
      "lastError m' = lastError m"
    and w: "width m \<noteq> 0 \<and> (\<forall>x \<in> set ms. \<not> is_zero_width (snd x)) \<longrightarrow> width m' \<noteq> 0"
    using run_msgs_keeps_error [of m ms] by blast
  have "shownError m' = shownError m"
    if "width m \<noteq> 0 \<and> (\<forall>x \<in> set ms. \<not> is_zero_width (snd x))"
  proof -
    from that w have "width m' \<noteq> 0" "width m \<noteq> 0" by blast+
    with r(2,3) show ?thesis by (simp add: shownError_def)
  qed
  with r show "\<exists>m'. run_msgs ms m = Inr m' \<and> showError m' = showError m \<and>
      lastError m' = lastError m \<and>
      (width m \<noteq> 0 \<and> (\<forall>x \<in> set ms. \<not> is_zero_width (snd x)) \<longrightarrow>
         shownError m' = shownError m)"
    by (intro exI [of _ m'] conjI impI)
next
  assume "msg_Error s' = None"
  then obtain m' where u: "Update now (StatusMsg s') m = Inr (m', NoCmd)" "\<not> showError m'"
      "lastError m' = lastError m"
    using Update_status_ok [of s' now m] by blast
  then have "shownError m' = None"
    by (simp add: shownError_def)
  with u show "\<exists>m'. Update now (StatusMsg s') m = Inr (m', NoCmd) \<and>
      shownError m' = None \<and> \<not> showError m' \<and> lastError m' = lastError m"
    by (intro exI [of _ m'] conjI)
next
  assume "is_clear_error (keyMap m) msg"
  then obtain m' where u: "Update now msg m = Inr (m', NoCmd)" "\<not> showError m'"
      "lastError m' = []"
    using Update_clear [of m msg now] by blast
  then have "shownError m' = None"
    by (simp add: shownError_def)
  with u show "\<exists>m'. Update now msg m = Inr (m', NoCmd) \<and> shownError m' = None \<and>
      \<not> showError m' \<and> lastError m' = []"
    by (intro exI [of _ m'] conjI)
next
  show "\<exists>m'. Update now (WindowSizeMsg 0 h) m = Inr (m', NoCmd) \<and> shownError m' = None \<and>
      showError m' = showError m \<and> lastError m' = lastError m"
    by (simp add: Update_def shownError_def)
qed

lemma Update_model_sized_failed:
  "Update 2000 (StatusMsg (failed build_error)) model_sized = Inr (model_failed, NoCmd)"
  by code_simp

theorem error_shown_until_cleared_or_status_witness:
  "msg_Error (failed build_error) = Some build_error \<and>
   Update 2000 (StatusMsg (failed build_error)) model_sized = Inr (model_failed, NoCmd) \<and>
   shownError model_failed = Some ''failed to build WASM: exit status 2'' \<and>
   tabs model_failed \<noteq> [] \<and> width model_failed \<noteq> 0 \<and>
   map_sum id shownError (run_msgs quiet_msgs model_failed) =
     Inr (Some ''failed to build WASM: exit status 2'') \<and>
   is_clear_error (keyMap model_failed) (KeyMsg ''c'') \<and>
   map_sum id shownError (run_msgs [(2000, KeyMsg ''c'')] model_failed) = Inr None \<and>
   map_sum id shownError
     (run_msgs [(2000, StatusMsg \<lparr>msg_Status = ServerStopped, msg_PID = 0, msg_Error = None\<rparr>)]
        model_failed) = Inr None \<and>
   map_sum id shownError (run_msgs [(2000, WindowSizeMsg 0 40)] model_failed) = Inr None \<and>
   map_sum id showError (run_msgs [(2000, WindowSizeMsg 0 40)] model_failed) = Inr True"
proof -
  let ?ok = "\<lparr>msg_Status = ServerStopped, msg_PID = 0, msg_Error = None\<rparr>"
  have h1: "msg_Error (failed build_error) = Some build_error"
    by (simp add: failed_def)
  have h2: "tabs model_failed \<noteq> []" "width model_failed \<noteq> 0" "width model_sized \<noteq> 0"
    "showError model_failed"
    by code_simp+
  have h3: "\<forall>x \<in> set quiet_msgs.
      \<not> is_StatusMsg (snd x) \<and> \<not> is_clear_error (keyMap model_failed) (snd x)"
    "\<forall>x \<in> set quiet_msgs. \<not> is_zero_width (snd x)"
    by code_simp+
  have h4: "msg_Error ?ok = None"
    by simp
  have h5: "is_clear_error (keyMap model_failed) (KeyMsg ''c'')"
    by code_simp
  have e: "error_string build_error = ''failed to build WASM: exit status 2''"
    by code_simp
  show ?thesis
    using error_shown_until_cleared_or_status
      [where s = "failed build_error" and err = build_error and now = 2000 and m = model_failed
        and ms = quiet_msgs and s' = ?ok and msg = "KeyMsg ''c''" and h = 40]
      error_shown_until_cleared_or_status
      [where s = "failed build_error" and err = build_error and now = 2000 and m = model_sized
        and ms = "[]" and s' = ?ok and msg = OtherMsg and h = 40]
      h1 h2 h3 h4 h5 Update_model_sized_failed
    by (auto simp: e)
qed

text \<open>
  Claim C5 as stated fails: the error of a failed build is shown, and the next status
  check, which reports \<open>Stopped\<close> without an error and is not the clear-error command,
  hides it.
\<close>

theorem error_hidden_by_status_check_counterexample:
  "map_sum id shownError
     (run_msgs [(1000, WindowSizeMsg 120 40), (2000, StatusMsg (failed build_error))] model8080) =
     Inr (Some ''failed to build WASM: exit status 2'') \<and>
   checkServerStatus env_build_fails model8080 world0 =
     \<lparr>msg_Status = ServerStopped, msg_PID = 0, msg_Error = None\<rparr> \<and>
   is_clear_error (keyMap model8080)
     (StatusMsg (checkServerStatus env_build_fails model8080 world0)) = False \<and>
   map_sum id shownError
     (run_msgs [(1000, WindowSizeMsg 120 40), (2000, StatusMsg (failed build_error)),
                (3000, StatusMsg (checkServerStatus env_build_fails model8080 world0))]
        model8080) = Inr None"
  by code_simp

end
